theory Spec2Isabelle
  imports Complex_Main
begin

section \<open>The lookup tables of TetraederTable.hpp\<close>

text \<open>
  The header declares five constant arrays of \<open>int\<close>. Each is modelled as a list of
  rows, every row a list of integers, in the order of the source. All indices that the
  theorems below read are inside the declared bounds.
\<close>

definition TetraederTable :: "int list list" where
  "TetraederTable =
    [ [-1, -1, -1, -1, -1, -1, -1],
      [ 0,  3,  2, -1, -1, -1, -1],
      [ 0,  1,  4, -1, -1, -1, -1],
      [ 2,  1,  3,  3,  1,  4, -1],
      [ 3,  4,  5, -1, -1, -1, -1],
      [ 2,  0,  5,  5,  0,  4, -1],
      [ 3,  0,  1,  3,  1,  5, -1],
      [ 2,  1,  5, -1, -1, -1, -1],
      [ 2,  5,  1, -1, -1, -1, -1],
      [ 3,  1,  0,  3,  5,  1, -1],
      [ 2,  5,  0,  5,  4,  0, -1],
      [ 3,  5,  4, -1, -1, -1, -1],
      [ 2,  3,  1,  3,  4,  1, -1],
      [ 0,  4,  1, -1, -1, -1, -1],
      [ 0,  2,  3, -1, -1, -1, -1],
      [-1, -1, -1, -1, -1, -1, -1] ]"

definition TetraederIntersectionTable :: "int list list" where
  "TetraederIntersectionTable =
    [ [ 0, 12,  8,  3, 16, 14],
      [16, 12, 14,  2,  1, 18],
      [18, 13,  7, 14,  2, 10],
      [ 9,  4, 12,  1, 15, 18],
      [ 4, 17,  7, 18, 15, 13],
      [15, 17, 13, 11,  5,  6] ]"

definition TetraederDefinitionTable :: "int list list" where
  "TetraederDefinitionTable =
    [ [0, 1, 3, 4],
      [3, 1, 2, 4],
      [4, 2, 3, 7],
      [1, 5, 2, 4],
      [4, 5, 2, 7],
      [2, 5, 6, 7] ]"

definition TetraederNeighborTable :: "int list list" where
  "TetraederNeighborTable =
    [ [12, 10,  9],
      [22, 12, 21],
      [16, 12, 15],
      [ 4,  3, 12],
      [14, 10, 11],
      [23, 22, 14],
      [14, 16, 17],
      [ 4,  5, 14],
      [ 4,  1, 10],
      [22, 19, 10],
      [ 4,  7, 16],
      [22, 25, 16],
      [10, -1, -1],
      [16, -1, -1],
      [ 4, -1, -1],
      [22, -1, -1],
      [12, -1, -1],
      [14, -1, -1],
      [-1, -1, -1] ]"

definition TetraederVertexNBTable :: "int list list" where
  "TetraederVertexNBTable =
    [ [ 4,  2,  6],
      [ 3,  5,  7],
      [ 0,  6,  4],
      [ 1,  5,  7],
      [ 0,  6,  2],
      [ 3,  7,  1],
      [ 2,  4,  0],
      [ 5,  1,  3],
      [ 9, 11, 10],
      [ 8, 10, 11],
      [11,  9,  8],
      [10,  8,  9],
      [13, -1, -1],
      [12, -1, -1],
      [15, -1, -1],
      [14, -1, -1],
      [17, -1, -1],
      [16, -1, -1],
      [-1, -1, -1] ]"


section \<open>Reading the tables\<close>

text \<open>
  A row of \<open>TetraederTable\<close> is a list of triangles, three local edge numbers each,
  closed by the terminator \<open>-1\<close>. \<open>edge_refs\<close> is the part of a row before the first
  terminator, \<open>padding\<close> the rest, and \<open>triangles\<close> walks a row three entries at a
  time until it meets the terminator, collecting each triangle as the set of its edges.
\<close>

definition edge_refs :: "int list \<Rightarrow> int list" where
  "edge_refs row = takeWhile (\<lambda>e. e \<noteq> -1) row"

definition padding :: "int list \<Rightarrow> int list" where
  "padding row = dropWhile (\<lambda>e. e \<noteq> -1) row"

definition encodes_triangles :: "int list \<Rightarrow> nat \<Rightarrow> bool" where
  "encodes_triangles row t =
     (length (edge_refs row) = 3 * t \<and> padding row = replicate (7 - 3 * t) (-1))"

fun triangles :: "int list \<Rightarrow> int set set" where
  "triangles (a # b # c # rest) = (if a = -1 then {} else insert {a, b, c} (triangles rest))"
| "triangles _ = {}"

definition nonneg_entries :: "int list \<Rightarrow> int list" where
  "nonneg_entries row = filter (\<lambda>e. 0 \<le> e) row"

text \<open>
  The configuration index of a tetrahedron has one bit per corner; \<open>popcount4\<close> counts
  the bits that are set among the lowest four.
\<close>

definition popcount4 :: "nat \<Rightarrow> nat" where
  "popcount4 c = c mod 2 + c div 2 mod 2 + c div 4 mod 2 + c div 8 mod 2"

section \<open>The point cloud manager of FlannPointCloudManager.hpp\<close>

text \<open>
  The header instantiates the manager for a vertex type and a normal type with three
  \<open>float\<close> coordinates. Coordinates are modelled as real numbers: rounding of the
  machine arithmetic is outside this development.
\<close>

type_synonym vertex = "real \<times> real \<times> real"

type_synonym normal = "real \<times> real \<times> real"

text \<open>The helper struct \<open>Plane\<close>: three coefficients, the normal and the anchor point.\<close>

record plane =
  Plane_a :: real
  Plane_b :: real
  Plane_c :: real
  Plane_n :: normal
  Plane_p :: vertex

text \<open>
  The state of a manager. The header declares the members \<open>m_pointTree\<close> and
  \<open>m_centroid\<close>; the other members belong to the base class \<open>PointCloudManager\<close>
  and are named here after the parameters of the constructor that fill them: the point
  array, the normal array and the neighborhood sizes \<open>kn\<close>, \<open>ki\<close> and \<open>kd\<close>
  (all \<open>int\<close> in the header). The number \<open>n\<close> of points is the length of the point
  array. The member \<open>m_pointTree\<close> is the search index over \<open>m_points\<close>; it holds no
  data of its own and is represented by the search function \<open>ksearch\<close> below.
\<close>

record manager =
  m_points :: "vertex list"
  m_normals :: "normal list"
  m_kn :: int
  m_ki :: int
  m_kd :: int
  m_centroid :: vertex

text \<open>
  \<open>getkClosestNormals\<close> has an empty body in the header. A call returns nothing and
  touches neither the manager nor the vector \<open>nb\<close> passed by reference: the model
  returns the state and the vector as they came in.
\<close>

definition getkClosestNormals ::
  "manager \<Rightarrow> vertex \<Rightarrow> nat \<Rightarrow> normal list \<Rightarrow> manager \<times> normal list" where
  "getkClosestNormals m n k nb = (m, nb)"

subsection \<open>Vector arithmetic\<close>

text \<open>
  Modelled from the spec: the operations of the vertex and normal classes, whose
  definitions are missing. The specification asks of a vector that it "supports
  component access, addition, scalar scale, dot product"; differences, distances and
  unit vectors are written with these.
\<close>

fun vsub :: "vertex \<Rightarrow> vertex \<Rightarrow> vertex" where
  "vsub (x1, y1, z1) (x2, y2, z2) = (x1 - x2, y1 - y2, z1 - z2)"

fun vadd :: "vertex \<Rightarrow> vertex \<Rightarrow> vertex" where
  "vadd (x1, y1, z1) (x2, y2, z2) = (x1 + x2, y1 + y2, z1 + z2)"

fun vscale :: "real \<Rightarrow> vertex \<Rightarrow> vertex" where
  "vscale s (x, y, z) = (s * x, s * y, s * z)"

fun dot :: "vertex \<Rightarrow> vertex \<Rightarrow> real" where
  "dot (x1, y1, z1) (x2, y2, z2) = x1 * x2 + y1 * y2 + z1 * z2"

definition sqdist :: "vertex \<Rightarrow> vertex \<Rightarrow> real" where
  "sqdist v w = dot (vsub v w) (vsub v w)"

definition euclid_dist :: "vertex \<Rightarrow> vertex \<Rightarrow> real" where
  "euclid_dist v w = sqrt (sqdist v w)"

text \<open>Scaling to unit length; the zero vector, which has no direction, is left as it is.\<close>

definition normalize :: "vertex \<Rightarrow> normal" where
  "normalize v = (if dot v v = 0 then v else vscale (1 / sqrt (dot v v)) v)"

subsection \<open>Queries whose bodies are in FlannPointCloudManager.tcc\<close>

text \<open>
  The header only declares the remaining member functions; their bodies are in the
  template file \<open>FlannPointCloudManager.tcc\<close>, which is missing. The definitions of
  this subsection follow the specification of the repository.
\<close>

text \<open>
  Modelled from the spec: the spatial index, whose search routine is missing. The
  specification describes it as the capability "given a query point and k, return its k
  nearest neighbors", by Euclidean distance, fewer than k when the index holds fewer
  points, ties in the order of the index. \<open>ksearch\<close> returns the positions of these
  points in the point array, nearest first. Ordering by the squared distance is ordering
  by the distance.
\<close>

definition ksearch :: "vertex list \<Rightarrow> vertex \<Rightarrow> nat \<Rightarrow> nat list" where
  "ksearch pts q k = take k (sort_key (\<lambda>i. sqdist q (pts ! i)) [0..<length pts])"

text \<open>
  Modelled from the spec: \<open>fromID\<close>, whose body is missing, "converting an internal
  point-array index back into a point value; a pure accessor". It is only applied to
  positions that \<open>ksearch\<close> returns or that range over the point array.
\<close>

definition fromID :: "manager \<Rightarrow> nat \<Rightarrow> vertex" where
  "fromID m i = m_points m ! i"

text \<open>
  Modelled from the spec: \<open>getkClosestVertices\<close>, whose body is missing. It "returns
  up to k nearest points to query by Euclidean distance in the underlying index, fewer if
  n < k". The result is the sequence of points that the vector \<open>nb\<close> of the declaration
  holds after the call.
\<close>

definition getkClosestVertices :: "manager \<Rightarrow> vertex \<Rightarrow> nat \<Rightarrow> vertex list" where
  "getkClosestVertices m v k = map (fromID m) (ksearch (m_points m) v k)"

text \<open>
  The least-squares fit of \<open>calcPlane\<close> is numerical code whose body is missing;
  every definition below takes it as a parameter of this type: the point array,
  the query point, the neighborhood size and the positions of the neighbors go in, and a
  plane comes out, or nothing when the neighborhood is degenerate (an ill-shaped bounding
  box, fewer than three points that are not collinear).
\<close>

type_synonym plane_fitter = "vertex list \<Rightarrow> vertex \<Rightarrow> int \<Rightarrow> nat list \<Rightarrow> plane option"

text \<open>
  Modelled from the spec: the tangent plane of the stored point \<open>i\<close>, computed in the
  missing body of \<open>calcNormals\<close>: "query kn nearest neighbors (including i)", validate
  the neighborhood and "fit a plane through the neighborhood by least-squares". With
  fewer than \<open>kn\<close> stored points there is no neighborhood of that size and no plane.
\<close>

definition tangentPlane :: "plane_fitter \<Rightarrow> manager \<Rightarrow> nat \<Rightarrow> plane option" where
  "tangentPlane calcPlane m i =
     (if int (length (m_points m)) < m_kn m then None
      else calcPlane (m_points m) (fromID m i) (m_kn m)
             (ksearch (m_points m) (fromID m i) (nat (m_kn m))))"

text \<open>
  Modelled from the spec: the tangent planes that could be fitted at the \<open>kd\<close> stored
  points nearest to a query vertex, nearest first; part of the missing body of
  \<open>distance\<close>.
\<close>

definition neighborPlanes :: "plane_fitter \<Rightarrow> manager \<Rightarrow> vertex \<Rightarrow> plane list" where
  "neighborPlanes calcPlane m v =
     List.map_filter (tangentPlane calcPlane m) (ksearch (m_points m) v (nat (m_kd m)))"

datatype query_error = NoTangentPlane

text \<open>
  Modelled from the spec: the public \<open>distance\<close>, whose body is missing. It "projects
  point onto the nearest locally-fitted tangent plane; euclideanDistance is plain
  distance to that plane's anchor; signedProjectedDistance is the plane-normal-signed
  offset", and it "fails (returns a sentinel / reports error) if no neighbor plane can be
  fitted". The two output parameters of the declaration are the pair of the result; the
  sentinel or error is the left injection.
\<close>

definition distance ::
  "plane_fitter \<Rightarrow> manager \<Rightarrow> vertex \<Rightarrow> query_error + (real \<times> real)" where
  "distance calcPlane m v =
     (case neighborPlanes calcPlane m v of
        [] \<Rightarrow> Inl NoTangentPlane
      | pl # _ \<Rightarrow> Inr (dot (vsub v (Plane_p pl)) (Plane_n pl), euclid_dist v (Plane_p pl)))"

text \<open>
  Modelled from the spec: the initial normal of the stored point \<open>i\<close>, part of the
  missing body of \<open>calcNormals\<close>. The normal of the fitted plane is flipped "if it
  points away from a reference direction", "the direction from the global centroid to
  the query point"; a degenerate neighborhood falls back to the centroid-based estimate,
  the unit vector of that direction.
\<close>

definition initialNormal :: "plane_fitter \<Rightarrow> manager \<Rightarrow> nat \<Rightarrow> normal" where
  "initialNormal calcPlane m i =
     (let ref = vsub (fromID m i) (m_centroid m) in
      case tangentPlane calcPlane m i of
        None \<Rightarrow> normalize ref
      | Some pl \<Rightarrow> if dot (Plane_n pl) ref < 0 then vscale (-1) (Plane_n pl) else Plane_n pl)"

text \<open>
  Modelled from the spec: the first phase of the missing body of \<open>calcNormals\<close>, which
  "computes initial normals for every point".
\<close>

definition estimateNormals :: "plane_fitter \<Rightarrow> manager \<Rightarrow> normal list" where
  "estimateNormals calcPlane m = map (initialNormal calcPlane m) [0..<length (m_points m)]"

text \<open>
  Modelled from the spec: \<open>interpolateSurfaceNormals\<close>, whose body is missing. "For
  point i, gather ki nearest neighbors' previously-computed initial normals and
  average", then "re-normalize to unit length"; it runs "after all initial normals
  exist", so it reads the list \<open>ns\<close> of initial normals and nothing else. Scaling the
  sum of the normals to unit length is scaling their average.
\<close>

definition interpolateSurfaceNormals :: "manager \<Rightarrow> normal list \<Rightarrow> normal list" where
  "interpolateSurfaceNormals m ns =
     map (\<lambda>i. normalize (foldr vadd (map (\<lambda>j. ns ! j)
                  (ksearch (m_points m) (fromID m i) (nat (m_ki m)))) (0, 0, 0)))
       [0..<length (m_points m)]"

text \<open>
  Modelled from the spec: \<open>calcNormals\<close>, whose body is missing. It "computes initial
  normals for every point, then interpolates", and "overwrites prior normals".
\<close>

definition calcNormals :: "plane_fitter \<Rightarrow> manager \<Rightarrow> manager" where
  "calcNormals calcPlane m =
     m\<lparr>m_normals := interpolateSurfaceNormals m (estimateNormals calcPlane m)\<rparr>"

section \<open>The geometry of the tetrahedra in a cell\<close>

text \<open>
  \<open>TetraederDefinitionTable\<close> names the corners of a cell by the numbers 0 to 7 and
  gives four of them for each of the six tetrahedra. Points are triples of real
  coordinates. The convex hull of a list of points is the set of their convex
  combinations: weights that are not negative and add up to one.
\<close>

fun combine :: "real list \<Rightarrow> vertex list \<Rightarrow> vertex" where
  "combine (w # ws) (p # ps) = vadd (vscale w p) (combine ws ps)"
| "combine _ _ = (0, 0, 0)"

definition convex_hull :: "vertex list \<Rightarrow> vertex set" where
  "convex_hull ps =
     {p. \<exists>ws. length ws = length ps \<and> list_all (\<lambda>w. 0 \<le> w) ws \<and> sum_list ws = 1 \<and>
          p = combine ws ps}"

definition unit_cube :: "vertex set" where
  "unit_cube = {(x, y, z). 0 \<le> x \<and> x \<le> 1 \<and> 0 \<le> y \<and> y \<le> 1 \<and> 0 \<le> z \<and> z \<le> 1}"

text \<open>
  The interior of a set of points: the points that have a whole open box around them
  inside the set. \<open>near e p q\<close> says that \<open>q\<close> is in the open box of half width
  \<open>e\<close> around \<open>p\<close>.
\<close>

definition near :: "real \<Rightarrow> vertex \<Rightarrow> vertex \<Rightarrow> bool" where
  "near e p q = (case p of (x, y, z) \<Rightarrow> case q of (x', y', z') \<Rightarrow>
      \<bar>x' - x\<bar> < e \<and> \<bar>y' - y\<bar> < e \<and> \<bar>z' - z\<bar> < e)"

definition interior_points :: "vertex set \<Rightarrow> vertex set" where
  "interior_points S = {p. \<exists>e>0. \<forall>q. near e p q \<longrightarrow> q \<in> S}"

text \<open>
  The header does not say where the corners 0 to 7 of a cell lie, so the placement of
  the corners is a parameter \<open>corner\<close> of the definitions below. \<open>tetra_corners\<close>
  reads a row of the table and places its four corners, \<open>tetrahedron\<close> is the solid
  they span, and \<open>shared_corners\<close> places the corners that row \<open>s\<close> has in common
  with row \<open>t\<close>, in the order of row \<open>s\<close>.
\<close>

definition tetra_corners :: "(nat \<Rightarrow> vertex) \<Rightarrow> nat \<Rightarrow> vertex list" where
  "tetra_corners corner t = map (\<lambda>i. corner (nat i)) (TetraederDefinitionTable ! t)"

definition tetrahedron :: "(nat \<Rightarrow> vertex) \<Rightarrow> nat \<Rightarrow> vertex set" where
  "tetrahedron corner t = convex_hull (tetra_corners corner t)"

definition shared_corners :: "(nat \<Rightarrow> vertex) \<Rightarrow> nat \<Rightarrow> nat \<Rightarrow> vertex list" where
  "shared_corners corner s t =
     map (\<lambda>i. corner (nat i))
       (filter (\<lambda>i. i \<in> set (TetraederDefinitionTable ! t)) (TetraederDefinitionTable ! s))"

text \<open>
  The placement of the corners on the axis-aligned unit cube in the numbering of a
  marching cubes cell: the corners 0, 1, 2, 3 run around the bottom face, and the
  corners 4, 5, 6, 7 lie above them on the top face.
\<close>

definition box_corners :: "(nat \<Rightarrow> vertex) \<Rightarrow> bool" where
  "box_corners corner =
     (corner 0 = (0, 0, 0) \<and> corner 1 = (1, 0, 0) \<and> corner 2 = (1, 1, 0) \<and>
      corner 3 = (0, 1, 0) \<and> corner 4 = (0, 0, 1) \<and> corner 5 = (1, 0, 1) \<and>
      corner 6 = (1, 1, 1) \<and> corner 7 = (0, 1, 1))"

section \<open>Case analysis on small indices\<close>

lemma nat_less_3_cases: "(j::nat) < 3 \<Longrightarrow> j = 0 \<or> j = 1 \<or> j = 2"
  by arith

lemma nat_less_16_cases:
  "(c::nat) < 16 \<Longrightarrow> c = 0 \<or> c = 1 \<or> c = 2 \<or> c = 3 \<or> c = 4 \<or> c = 5 \<or> c = 6 \<or> c = 7 \<or>
     c = 8 \<or> c = 9 \<or> c = 10 \<or> c = 11 \<or> c = 12 \<or> c = 13 \<or> c = 14 \<or> c = 15"
  by arith

lemma nat_less_19_cases:
  "(c::nat) < 19 \<Longrightarrow> c = 0 \<or> c = 1 \<or> c = 2 \<or> c = 3 \<or> c = 4 \<or> c = 5 \<or> c = 6 \<or> c = 7 \<or>
     c = 8 \<or> c = 9 \<or> c = 10 \<or> c = 11 \<or> c = 12 \<or> c = 13 \<or> c = 14 \<or> c = 15 \<or>
     c = 16 \<or> c = 17 \<or> c = 18"
  by arith

lemma nat_less_6_cases: "(t::nat) < 6 \<Longrightarrow> t = 0 \<or> t = 1 \<or> t = 2 \<or> t = 3 \<or> t = 4 \<or> t = 5"
  by arith

lemma lessThan_6: "{..<6::nat} = {0, 1, 2, 3, 4, 5}"
  by auto

lemma all_less_7:
  "(\<forall>j<7. P (j::nat)) \<longleftrightarrow> P 0 \<and> P 1 \<and> P 2 \<and> P 3 \<and> P 4 \<and> P 5 \<and> P 6"
proof
  assume "\<forall>j<7. P j"
  then show "P 0 \<and> P 1 \<and> P 2 \<and> P 3 \<and> P 4 \<and> P 5 \<and> P 6" by simp
next
  assume a: "P 0 \<and> P 1 \<and> P 2 \<and> P 3 \<and> P 4 \<and> P 5 \<and> P 6"
  show "\<forall>j<7. P j"
  proof (intro allI impI)
    fix j :: nat
    assume "j < 7"
    then have "j = 0 \<or> j = 1 \<or> j = 2 \<or> j = 3 \<or> j = 4 \<or> j = 5 \<or> j = 6" by arith
    with a show "P j" by auto
  qed
qed

lemma replicate_numeral: "replicate (numeral k) x = x # replicate (pred_numeral k) x"
  by (simp add: numeral_eq_Suc)

section \<open>Rows end in terminators\<close>

lemma row_split: "row = edge_refs row @ padding row"
  by (simp add: edge_refs_def padding_def)

lemma edge_refs_no_terminator: "-1 \<notin> set (edge_refs row)"
  by (auto simp: edge_refs_def dest: set_takeWhileD)

lemma padded_nth:
  assumes "row = xs @ replicate n (-1 :: int)" and "-1 \<notin> set xs"
    and "i < j" and "j < length row" and "row ! i = -1"
  shows "row ! j = -1"
proof -
  have "\<not> i < length xs"
  proof
    assume "i < length xs"
    then have "row ! i \<in> set xs" using assms(1) by (simp add: nth_append)
    with assms(2,5) show False by simp
  qed
  then have "length xs \<le> j" using assms(3) by simp
  with assms(1,4) show ?thesis by (simp add: nth_append)
qed

lemma terminated_row_nth:
  assumes "padding row = replicate (length (padding row)) (-1)"
    and "i < j" and "j < length row" and "row ! i = -1"
  shows "row ! j = -1"
proof -
  have "row = edge_refs row @ replicate (length (padding row)) (-1)"
    using row_split[of row] assms(1) by simp
  from padded_nth[OF this edge_refs_no_terminator assms(2,3,4)] show ?thesis .
qed

lemma TetraederTable_rows:
  assumes "c < 16"
  shows "length (TetraederTable ! c) = 7 \<and>
         list_all (\<lambda>e. e = -1 \<or> (0 \<le> e \<and> e \<le> 5)) (TetraederTable ! c) \<and>
         padding (TetraederTable ! c) = replicate (length (padding (TetraederTable ! c))) (-1)"
  using nat_less_16_cases[OF assms]
  by (elim disjE; simp add: TetraederTable_def padding_def)

lemma TetraederNeighborTable_rows:
  assumes "i < 19"
  shows "length (TetraederNeighborTable ! i) = 3 \<and>
         list_all (\<lambda>e. e = -1 \<or> (1 \<le> e \<and> e \<le> 25 \<and> e \<noteq> 13)) (TetraederNeighborTable ! i) \<and>
         padding (TetraederNeighborTable ! i)
           = replicate (length (padding (TetraederNeighborTable ! i))) (-1)"
  using nat_less_19_cases[OF assms]
  by (elim disjE; simp add: TetraederNeighborTable_def padding_def)

lemma VertexNB_back_reference:
  assumes "i < 19" and "e \<in> set (nonneg_entries (TetraederVertexNBTable ! i))"
  shows "e < 19 \<and> 0 \<le> e \<and> int i \<in> set (nonneg_entries (TetraederVertexNBTable ! nat e))"
  using nat_less_19_cases[OF assms(1)] assms(2)
  by (elim disjE; simp add: TetraederVertexNBTable_def nonneg_entries_def; elim disjE; simp)

section \<open>The triangle table\<close>

text \<open>
  Claim C9. \<open>TetraederTable\<close> has 16 rows of 7 entries. Every entry is \<open>-1\<close> or a
  local edge number between 0 and 5, and in every row each entry that follows a \<open>-1\<close>
  is \<open>-1\<close> as well: the terminator only pads the end of the triangle list.
\<close>

theorem TetraederTable_entries:
  assumes "c < 16" and "j < 7"
  shows "length TetraederTable = 16 \<and> length (TetraederTable ! c) = 7 \<and>
         (TetraederTable ! c ! j = -1 \<or>
            (0 \<le> TetraederTable ! c ! j \<and> TetraederTable ! c ! j \<le> 5)) \<and>
         (\<forall>i<j. TetraederTable ! c ! i = -1 \<longrightarrow> TetraederTable ! c ! j = -1)"
proof -
  let ?row = "TetraederTable ! c"
  note r = TetraederTable_rows[OF assms(1)]
  have len: "length ?row = 7" using r by simp
  have rng: "?row ! j = -1 \<or> (0 \<le> ?row ! j \<and> ?row ! j \<le> 5)"
    using r assms(2) len by (simp add: list_all_length)
  have pad: "?row ! i = -1 \<longrightarrow> ?row ! j = -1" if "i < j" for i
    using terminated_row_nth[of ?row i j] r that assms(2) len by simp
  have "length TetraederTable = 16" by (simp add: TetraederTable_def)
  with len rng pad show ?thesis by simp
qed

theorem TetraederTable_entries_witness:
  "(1::nat) < 16 \<and> (6::nat) < 7 \<and> (3::nat) < 6 \<and>
   TetraederTable ! 1 ! 3 = -1 \<and> TetraederTable ! 1 ! 6 = -1 \<and>
   length (TetraederTable ! 1) = 7"
  using TetraederTable_entries[of 1 6] by (simp add: TetraederTable_def)

text \<open>
  Claim C1. For a configuration index \<open>c\<close> below 16, the row \<open>TetraederTable ! c\<close>
  consists of terminators only exactly when \<open>c\<close> is 0 or 15; it holds one triangle
  (three edge numbers, then padding) exactly when one or three of the four bits of
  \<open>c\<close> are set, and two triangles (six edge numbers, then padding) exactly when two
  bits are set.
\<close>

theorem TetraederTable_triangle_count:
  assumes "c < 16"
  shows "((\<forall>j<7. TetraederTable ! c ! j = -1) \<longleftrightarrow> c = 0 \<or> c = 15) \<and>
         (encodes_triangles (TetraederTable ! c) 0 \<longleftrightarrow> c = 0 \<or> c = 15) \<and>
         (encodes_triangles (TetraederTable ! c) 1 \<longleftrightarrow> popcount4 c = 1 \<or> popcount4 c = 3) \<and>
         (encodes_triangles (TetraederTable ! c) 2 \<longleftrightarrow> popcount4 c = 2)"
  using nat_less_16_cases[OF assms]
  by (elim disjE;
      simp add: all_less_7 TetraederTable_def encodes_triangles_def edge_refs_def
        padding_def popcount4_def replicate_numeral)

theorem TetraederTable_triangle_count_witness:
  "(6::nat) < 16 \<and> popcount4 6 = 2 \<and> encodes_triangles (TetraederTable ! 6) 2 \<and>
   \<not> encodes_triangles (TetraederTable ! 6) 1 \<and> \<not> encodes_triangles (TetraederTable ! 6) 0"
  using TetraederTable_triangle_count[of 6] by (simp add: popcount4_def)

text \<open>
  Claim C4. The rows of a configuration \<open>c\<close> and of its complement \<open>15 - c\<close> hold
  the same triangles, each triangle taken as the set of its three edge numbers; the two
  rows differ only in the order in which the edges of a triangle are listed.
\<close>

theorem TetraederTable_complement:
  assumes "c < 16"
  shows "triangles (TetraederTable ! c) = triangles (TetraederTable ! (15 - c))"
  using nat_less_16_cases[OF assms]
  by (elim disjE; simp add: TetraederTable_def insert_commute)

theorem TetraederTable_complement_witness:
  "(3::nat) < 16 \<and> triangles (TetraederTable ! 3) = triangles (TetraederTable ! 12) \<and>
   triangles (TetraederTable ! 3) = {{1, 2, 3}, {1, 3, 4}}"
  using TetraederTable_complement[of 3] by (simp add: TetraederTable_def insert_commute)

section \<open>The neighbor table\<close>

text \<open>
  Claim C3, as stated: every non-negative entry of \<open>TetraederNeighborTable\<close> names a
  tetrahedron slot between 0 and 5, one row per slot. The table of the source has 19
  rows, and its first entry is 12.
\<close>

theorem TetraederNeighborTable_slot_counterexample:
  "length TetraederNeighborTable = 19 \<and> 0 \<le> TetraederNeighborTable ! 0 ! 0 \<and>
   \<not> TetraederNeighborTable ! 0 ! 0 \<le> 5"
  by (simp add: TetraederNeighborTable_def)

text \<open>
  Claim C3, amended. \<open>TetraederNeighborTable\<close> has 19 rows of 3 entries. Every entry
  is \<open>-1\<close> or a number between 1 and 25 other than 13, and an entry that follows a
  \<open>-1\<close> in its row is \<open>-1\<close>: a row holds up to three non-negative entries and then
  padding.
\<close>

theorem TetraederNeighborTable_entries:
  assumes "i < 19" and "j < 3"
  shows "length TetraederNeighborTable = 19 \<and> length (TetraederNeighborTable ! i) = 3 \<and>
         (TetraederNeighborTable ! i ! j = -1 \<or>
            (1 \<le> TetraederNeighborTable ! i ! j \<and> TetraederNeighborTable ! i ! j \<le> 25 \<and>
             TetraederNeighborTable ! i ! j \<noteq> 13)) \<and>
         (\<forall>k<j. TetraederNeighborTable ! i ! k = -1 \<longrightarrow> TetraederNeighborTable ! i ! j = -1)"
proof -
  let ?row = "TetraederNeighborTable ! i"
  note r = TetraederNeighborTable_rows[OF assms(1)]
  have len: "length ?row = 3" using r by simp
  have rng: "?row ! j = -1 \<or> (1 \<le> ?row ! j \<and> ?row ! j \<le> 25 \<and> ?row ! j \<noteq> 13)"
    using r assms(2) len by (simp add: list_all_length)
  have pad: "?row ! k = -1 \<longrightarrow> ?row ! j = -1" if "k < j" for k
    using terminated_row_nth[of ?row k j] r that assms(2) len by simp
  have "length TetraederNeighborTable = 19" by (simp add: TetraederNeighborTable_def)
  with len rng pad show ?thesis by simp
qed

theorem TetraederNeighborTable_entries_witness:
  "(12::nat) < 19 \<and> (2::nat) < 3 \<and> (1::nat) < 2 \<and>
   TetraederNeighborTable ! 12 ! 0 = 10 \<and> TetraederNeighborTable ! 12 ! 1 = -1 \<and>
   TetraederNeighborTable ! 12 ! 2 = -1"
  using TetraederNeighborTable_entries[of 12 2] by (simp add: TetraederNeighborTable_def)

section \<open>The vertex neighbor table\<close>

text \<open>
  Claim C10. The adjacency that \<open>TetraederVertexNBTable\<close> encodes is symmetric: for
  indices \<open>i\<close> and \<open>j\<close> below 19, \<open>j\<close> is among the non-negative entries of row \<open>i\<close>
  exactly when \<open>i\<close> is among the non-negative entries of row \<open>j\<close>.
\<close>

theorem TetraederVertexNBTable_symmetric:
  assumes "i < 19" and "j < 19"
  shows "int j \<in> set (nonneg_entries (TetraederVertexNBTable ! i)) \<longleftrightarrow>
         int i \<in> set (nonneg_entries (TetraederVertexNBTable ! j))"
  using VertexNB_back_reference[OF assms(1), of "int j"]
    VertexNB_back_reference[OF assms(2), of "int i"]
  by auto

theorem TetraederVertexNBTable_symmetric_witness:
  "(0::nat) < 19 \<and> (4::nat) < 19 \<and>
   int 4 \<in> set (nonneg_entries (TetraederVertexNBTable ! 0)) \<and>
   int 0 \<in> set (nonneg_entries (TetraederVertexNBTable ! 4))"
  using TetraederVertexNBTable_symmetric[of 0 4]
  by (simp add: TetraederVertexNBTable_def nonneg_entries_def)

section \<open>Nearest neighbors\<close>

lemma length_ksearch: "length (ksearch pts q k) = min k (length pts)"
  by (simp add: ksearch_def min.commute)

lemma ksearch_in_range: "i \<in> set (ksearch pts q k) \<Longrightarrow> i < length pts"
  by (auto simp: ksearch_def dest: in_set_takeD)

lemma sorted_take_map: "sorted (map f xs) \<Longrightarrow> sorted (map f (take k xs))"
  by (simp add: take_map[symmetric] sorted_wrt_take)

lemma ksearch_sorted: "sorted (map (\<lambda>i. sqdist q (pts ! i)) (ksearch pts q k))"
  unfolding ksearch_def by (rule sorted_take_map) (rule sorted_sort_key)

lemma sorted_map_sqrt: "sorted (map f xs) \<Longrightarrow> sorted (map (\<lambda>x. sqrt (f x)) xs)"
  by (induction xs) auto

lemma map_filter_None: "(\<And>x. f x = None) \<Longrightarrow> List.map_filter f xs = []"
  by (induction xs) (simp_all add: List.map_filter_simps)

text \<open>
  Claim C6. On a manager that holds \<open>n\<close> points, \<open>getkClosestVertices\<close> yields
  exactly \<open>min k n\<close> points for every query vertex and every \<open>k\<close>, in the order of
  non-decreasing Euclidean distance to the query; every one of them is a stored point.
\<close>

theorem getkClosestVertices_count_sorted:
  "length (getkClosestVertices m v k) = min k (length (m_points m)) \<and>
   sorted (map (euclid_dist v) (getkClosestVertices m v k)) \<and>
   set (getkClosestVertices m v k) \<subseteq> set (m_points m)"
proof -
  have "sorted (map (\<lambda>i. sqrt (sqdist v (m_points m ! i))) (ksearch (m_points m) v k))"
    by (rule sorted_map_sqrt) (rule ksearch_sorted)
  then have s: "sorted (map (euclid_dist v) (getkClosestVertices m v k))"
    by (simp add: getkClosestVertices_def euclid_dist_def fromID_def comp_def)
  have "set (getkClosestVertices m v k) \<subseteq> set (m_points m)"
    by (auto simp: getkClosestVertices_def fromID_def dest: ksearch_in_range)
  with s show ?thesis by (simp add: getkClosestVertices_def length_ksearch)
qed

section \<open>The unimplemented normal query\<close>

text \<open>
  Claim C2. For every query vertex, every count and every content of the output vector,
  a call of \<open>getkClosestNormals\<close> leaves the vector and the manager as they were.
\<close>

theorem getkClosestNormals_noop: "getkClosestNormals m n k nb = (m, nb)"
  by (simp add: getkClosestNormals_def)

section \<open>The distance query\<close>

text \<open>
  Claim C7. The distance query fails, and returns no pair of distances, whenever no
  tangent plane of a neighbor can be fitted; this is the case in particular when the
  manager holds fewer points than the neighborhood size \<open>kn\<close> of the normal
  estimation. A pair of distances is only returned when there is a fitted plane.
\<close>

theorem distance_fails_without_plane:
  "(neighborPlanes calcPlane m v = [] \<longrightarrow> distance calcPlane m v = Inl NoTangentPlane) \<and>
   (int (length (m_points m)) < m_kn m \<longrightarrow> distance calcPlane m v = Inl NoTangentPlane) \<and>
   (distance calcPlane m v = Inl NoTangentPlane \<or> neighborPlanes calcPlane m v \<noteq> [])"
proof -
  have a: "neighborPlanes calcPlane m v = [] \<Longrightarrow> distance calcPlane m v = Inl NoTangentPlane"
    by (simp add: distance_def)
  have b: "neighborPlanes calcPlane m v = []" if "int (length (m_points m)) < m_kn m"
    unfolding neighborPlanes_def using that
    by (intro map_filter_None) (simp add: tangentPlane_def)
  from a b show ?thesis by blast
qed

theorem distance_fails_without_plane_witness:
  "int (length (m_points \<lparr>m_points = [(0, 0, 0), (1, 0, 0)], m_normals = [], m_kn = 10,
       m_ki = 10, m_kd = 10, m_centroid = (1 / 2, 0, 0)\<rparr>)) < 10 \<and>
   distance
     (\<lambda>pts q k ids. Some \<lparr>Plane_a = 0, Plane_b = 0, Plane_c = 0, Plane_n = (0, 0, 1),
        Plane_p = q\<rparr>)
     \<lparr>m_points = [(0, 0, 0), (1, 0, 0)], m_normals = [], m_kn = 10, m_ki = 10, m_kd = 10,
       m_centroid = (1 / 2, 0, 0)\<rparr>
     (0, 0, 5) = Inl NoTangentPlane"
  using distance_fails_without_plane
    [of "\<lambda>pts q k ids. Some \<lparr>Plane_a = 0, Plane_b = 0, Plane_c = 0, Plane_n = (0, 0, 1),
           Plane_p = q\<rparr>"
        "\<lparr>m_points = [(0, 0, 0), (1, 0, 0)], m_normals = [], m_kn = 10, m_ki = 10,
           m_kd = 10, m_centroid = (1 / 2, 0, 0)\<rparr>"
        "(0, 0, 5)"]
  by simp

section \<open>Normal estimation\<close>

lemma estimateNormals_frame:
  "estimateNormals calcPlane (m\<lparr>m_normals := old\<rparr>) = estimateNormals calcPlane m"
  by (simp add: estimateNormals_def initialNormal_def tangentPlane_def fromID_def)

lemma interpolateSurfaceNormals_frame:
  "interpolateSurfaceNormals (m\<lparr>m_normals := old\<rparr>) ns = interpolateSurfaceNormals m ns"
  by (simp add: interpolateSurfaceNormals_def fromID_def)

lemma calcNormals_overwrites:
  "m_normals (calcNormals calcPlane (m\<lparr>m_normals := old\<rparr>))
     = m_normals (calcNormals calcPlane m)"
  by (simp add: calcNormals_def estimateNormals_frame interpolateSurfaceNormals_frame)

text \<open>
  Claim C8. \<open>calcNormals\<close> is idempotent on unchanged data: a second call right after
  the first leaves the array of normals, and the whole state, as the first call left
  it. Each call overwrites the stored normals: whatever the array held before, the call
  yields the same normals, one for every point.
\<close>

theorem calcNormals_idempotent:
  "m_normals (calcNormals calcPlane (calcNormals calcPlane m))
     = m_normals (calcNormals calcPlane m) \<and>
   calcNormals calcPlane (calcNormals calcPlane m) = calcNormals calcPlane m \<and>
   m_normals (calcNormals calcPlane (m\<lparr>m_normals := old\<rparr>))
     = m_normals (calcNormals calcPlane m) \<and>
   length (m_normals (calcNormals calcPlane m)) = length (m_points m)"
proof -
  have twice: "calcNormals calcPlane (calcNormals calcPlane m) = calcNormals calcPlane m"
    by (simp add: calcNormals_def estimateNormals_frame interpolateSurfaceNormals_frame)
  have len: "length (m_normals (calcNormals calcPlane m)) = length (m_points m)"
    by (simp add: calcNormals_def interpolateSurfaceNormals_def)
  from twice len calcNormals_overwrites show ?thesis by simp
qed

section \<open>Convex hulls of up to four points\<close>

lemma hull0: "p \<notin> convex_hull []"
  by (simp add: convex_hull_def)

lemma hull1: "(x, y, z) \<in> convex_hull [(a1, a2, a3)] \<longleftrightarrow> x = a1 \<and> y = a2 \<and> z = a3"
proof
  assume "(x, y, z) \<in> convex_hull [(a1, a2, a3)]"
  then obtain ws where ws: "length ws = length [(a1, a2, a3)]" "sum_list ws = 1"
    "(x, y, z) = combine ws [(a1, a2, a3)]"
    unfolding convex_hull_def by blast
  from ws(1) obtain s where "ws = [s]"
    by (auto simp: length_Suc_conv)
  with ws show "x = a1 \<and> y = a2 \<and> z = a3" by simp
next
  assume "x = a1 \<and> y = a2 \<and> z = a3"
  then show "(x, y, z) \<in> convex_hull [(a1, a2, a3)]"
    unfolding convex_hull_def by (intro CollectI exI[of _ "[1]"]) simp
qed

lemma hull2:
  "(x, y, z) \<in> convex_hull [(a1, a2, a3), (b1, b2, b3)] \<longleftrightarrow>
     (\<exists>s t. 0 \<le> s \<and> 0 \<le> t \<and> s + t = 1 \<and>
        x = s * a1 + t * b1 \<and> y = s * a2 + t * b2 \<and> z = s * a3 + t * b3)"
  (is "?L \<longleftrightarrow> ?R")
proof
  assume ?L
  then obtain ws where ws: "length ws = length [(a1, a2, a3), (b1, b2, b3)]"
    "list_all (\<lambda>w. 0 \<le> w) ws" "sum_list ws = 1"
    "(x, y, z) = combine ws [(a1, a2, a3), (b1, b2, b3)]"
    unfolding convex_hull_def by blast
  from ws(1) obtain s t where "ws = [s, t]"
    by (auto simp: length_Suc_conv)
  with ws show ?R by auto
next
  assume ?R
  then obtain s t where "0 \<le> s" "0 \<le> t" "s + t = 1"
    "x = s * a1 + t * b1" "y = s * a2 + t * b2" "z = s * a3 + t * b3" by blast
  then show ?L
    unfolding convex_hull_def by (intro CollectI exI[of _ "[s, t]"]) simp
qed

lemma hull3:
  "(x, y, z) \<in> convex_hull [(a1, a2, a3), (b1, b2, b3), (c1, c2, c3)] \<longleftrightarrow>
     (\<exists>s t u. 0 \<le> s \<and> 0 \<le> t \<and> 0 \<le> u \<and> s + t + u = 1 \<and>
        x = s * a1 + t * b1 + u * c1 \<and> y = s * a2 + t * b2 + u * c2 \<and>
        z = s * a3 + t * b3 + u * c3)"
  (is "?L \<longleftrightarrow> ?R")
proof
  assume ?L
  then obtain ws where ws: "length ws = length [(a1, a2, a3), (b1, b2, b3), (c1, c2, c3)]"
    "list_all (\<lambda>w. 0 \<le> w) ws" "sum_list ws = 1"
    "(x, y, z) = combine ws [(a1, a2, a3), (b1, b2, b3), (c1, c2, c3)]"
    unfolding convex_hull_def by blast
  from ws(1) obtain s t u where "ws = [s, t, u]"
    by (auto simp: length_Suc_conv)
  with ws show ?R by (auto simp: add.assoc)
next
  assume ?R
  then obtain s t u where "0 \<le> s" "0 \<le> t" "0 \<le> u" "s + t + u = 1"
    "x = s * a1 + t * b1 + u * c1" "y = s * a2 + t * b2 + u * c2"
    "z = s * a3 + t * b3 + u * c3" by blast
  then show ?L
    unfolding convex_hull_def by (intro CollectI exI[of _ "[s, t, u]"]) (simp add: add.assoc)
qed

lemma hull4:
  "(x, y, z) \<in> convex_hull [(a1, a2, a3), (b1, b2, b3), (c1, c2, c3), (d1, d2, d3)] \<longleftrightarrow>
     (\<exists>s t u v. 0 \<le> s \<and> 0 \<le> t \<and> 0 \<le> u \<and> 0 \<le> v \<and> s + t + u + v = 1 \<and>
        x = s * a1 + t * b1 + u * c1 + v * d1 \<and> y = s * a2 + t * b2 + u * c2 + v * d2 \<and>
        z = s * a3 + t * b3 + u * c3 + v * d3)"
  (is "?L \<longleftrightarrow> ?R")
proof
  assume ?L
  then obtain ws where ws: "length ws = length [(a1, a2, a3), (b1, b2, b3), (c1, c2, c3), (d1, d2, d3)]"
    "list_all (\<lambda>w. 0 \<le> w) ws" "sum_list ws = 1"
    "(x, y, z) = combine ws [(a1, a2, a3), (b1, b2, b3), (c1, c2, c3), (d1, d2, d3)]"
    unfolding convex_hull_def by blast
  from ws(1) obtain s t u v where "ws = [s, t, u, v]"
    by (auto simp: length_Suc_conv)
  with ws show ?R by (auto simp: add.assoc)
next
  assume ?R
  then obtain s t u v where "0 \<le> s" "0 \<le> t" "0 \<le> u" "0 \<le> v" "s + t + u + v = 1"
    "x = s * a1 + t * b1 + u * c1 + v * d1" "y = s * a2 + t * b2 + u * c2 + v * d2"
    "z = s * a3 + t * b3 + u * c3 + v * d3" by blast
  then show ?L
    unfolding convex_hull_def
    by (intro CollectI exI[of _ "[s, t, u, v]"]) (simp add: add.assoc)
qed

section \<open>Sets on the two sides of a plane\<close>

text \<open>
  When one set lies on one side of a plane and another set on the other side, no point
  is interior to both: a box around such a point would reach across the plane.
\<close>

lemma separated_interiors:
  assumes S: "\<And>x y z. (x, y, z) \<in> S \<Longrightarrow> a * x + b * y + c * z \<le> d"
    and T: "\<And>x y z. (x, y, z) \<in> T \<Longrightarrow> d \<le> a * x + b * y + c * z"
    and nz: "a \<noteq> 0 \<or> b \<noteq> 0 \<or> c \<noteq> 0"
  shows "interior_points S \<inter> interior_points T = {}"
proof (rule ccontr)
  assume "interior_points S \<inter> interior_points T \<noteq> {}"
  then obtain p where pS: "p \<in> interior_points S" and pT: "p \<in> interior_points T" by blast
  obtain x y z where p: "p = (x, y, z)" by (cases p) auto
  from pS obtain e1 where e1: "0 < e1" "\<And>q. near e1 p q \<Longrightarrow> q \<in> S"
    unfolding interior_points_def by blast
  from pT obtain e2 where e2: "0 < e2" "\<And>q. near e2 p q \<Longrightarrow> q \<in> T"
    unfolding interior_points_def by blast
  define e where "e = min e1 e2 / 2"
  have e: "0 < e" "e < e1" "e < e2" using e1(1) e2(1) by (auto simp: e_def)
  define k where "k = \<bar>a\<bar> + \<bar>b\<bar> + \<bar>c\<bar>"
  have k: "0 < k" using nz by (auto simp: k_def)
  have sg: "\<bar>e * sgn r\<bar> < e1" "\<bar>e * sgn r\<bar> < e2" for r :: real
    using e by (auto simp: abs_mult sgn_real_def)
  have "near e1 p (x + e * sgn a, y + e * sgn b, z + e * sgn c)"
    using sg by (simp add: near_def p)
  then have "(x + e * sgn a, y + e * sgn b, z + e * sgn c) \<in> S" by (rule e1(2))
  then have "a * (x + e * sgn a) + b * (y + e * sgn b) + c * (z + e * sgn c) \<le> d" by (rule S)
  then have up: "a * x + b * y + c * z + e * k \<le> d"
    by (simp add: k_def algebra_simps abs_sgn)
  have "near e2 p (x - e * sgn a, y - e * sgn b, z - e * sgn c)"
    using sg by (simp add: near_def p)
  then have "(x - e * sgn a, y - e * sgn b, z - e * sgn c) \<in> T" by (rule e2(2))
  then have "d \<le> a * (x - e * sgn a) + b * (y - e * sgn b) + c * (z - e * sgn c)" by (rule T)
  then have down: "d \<le> a * x + b * y + c * z - e * k"
    by (simp add: k_def algebra_simps abs_sgn)
  from up down have "e * k \<le> 0" by linarith
  moreover have "0 < e * k" using e(1) k by simp
  ultimately show False by simp
qed

section \<open>The six tetrahedra of the unit cube\<close>

text \<open>
  Each tetrahedron, with its corners placed by \<open>box_corners\<close>, is the set of points
  that satisfy four linear inequalities, one for each of its faces; the left sides of the
  inequalities are the weights of the four corners.
\<close>

lemma tetra0_halfspaces:
  "(x, y, z) \<in> convex_hull [(0, 0, 0), (1, 0, 0), (0, 1, 0), (0, 0, 1)] \<longleftrightarrow>
     0 \<le> 1 - x - y - z \<and> 0 \<le> x \<and> 0 \<le> y \<and> 0 \<le> z"
  (is "?L \<longleftrightarrow> ?R")
proof
  assume ?L
  then obtain s t u v where "0 \<le> s" "0 \<le> t" "0 \<le> u" "0 \<le> v"
    "s + t + u + v = 1"
    "x = s * 0 + t * 1 + u * 0 + v * 0"
    "y = s * 0 + t * 0 + u * 1 + v * 0"
    "z = s * 0 + t * 0 + u * 0 + v * 1"
    unfolding hull4 by blast
  then show ?R by simp
next
  assume ?R
  then show ?L
    unfolding hull4
    by - (rule exI[of _ "1 - x - y - z"], rule exI[of _ "x"],
          rule exI[of _ "y"], rule exI[of _ "z"], simp)
qed

lemma tetra1_halfspaces:
  "(x, y, z) \<in> convex_hull [(0, 1, 0), (1, 0, 0), (1, 1, 0), (0, 0, 1)] \<longleftrightarrow>
     0 \<le> 1 - x - z \<and> 0 \<le> 1 - y - z \<and> 0 \<le> x + y + z - 1 \<and> 0 \<le> z"
  (is "?L \<longleftrightarrow> ?R")
proof
  assume ?L
  then obtain s t u v where "0 \<le> s" "0 \<le> t" "0 \<le> u" "0 \<le> v"
    "s + t + u + v = 1"
    "x = s * 0 + t * 1 + u * 1 + v * 0"
    "y = s * 1 + t * 0 + u * 1 + v * 0"
    "z = s * 0 + t * 0 + u * 0 + v * 1"
    unfolding hull4 by blast
  then show ?R by simp
next
  assume ?R
  then show ?L
    unfolding hull4
    by - (rule exI[of _ "1 - x - z"], rule exI[of _ "1 - y - z"],
          rule exI[of _ "x + y + z - 1"], rule exI[of _ "z"], simp)
qed

lemma tetra2_halfspaces:
  "(x, y, z) \<in> convex_hull [(0, 0, 1), (1, 1, 0), (0, 1, 0), (0, 1, 1)] \<longleftrightarrow>
     0 \<le> 1 - y \<and> 0 \<le> x \<and> 0 \<le> 1 - x - z \<and> 0 \<le> y + z - 1"
  (is "?L \<longleftrightarrow> ?R")
proof
  assume ?L
  then obtain s t u v where "0 \<le> s" "0 \<le> t" "0 \<le> u" "0 \<le> v"
    "s + t + u + v = 1"
    "x = s * 0 + t * 1 + u * 0 + v * 0"
    "y = s * 0 + t * 1 + u * 1 + v * 1"
    "z = s * 1 + t * 0 + u * 0 + v * 1"
    unfolding hull4 by blast
  then show ?R by simp
next
  assume ?R
  then show ?L
    unfolding hull4
    by - (rule exI[of _ "1 - y"], rule exI[of _ "x"],
          rule exI[of _ "1 - x - z"], rule exI[of _ "y + z - 1"], simp)
qed

lemma tetra3_halfspaces:
  "(x, y, z) \<in> convex_hull [(1, 0, 0), (1, 0, 1), (1, 1, 0), (0, 0, 1)] \<longleftrightarrow>
     0 \<le> 1 - y - z \<and> 0 \<le> x + z - 1 \<and> 0 \<le> y \<and> 0 \<le> 1 - x"
  (is "?L \<longleftrightarrow> ?R")
proof
  assume ?L
  then obtain s t u v where "0 \<le> s" "0 \<le> t" "0 \<le> u" "0 \<le> v"
    "s + t + u + v = 1"
    "x = s * 1 + t * 1 + u * 1 + v * 0"
    "y = s * 0 + t * 0 + u * 1 + v * 0"
    "z = s * 0 + t * 1 + u * 0 + v * 1"
    unfolding hull4 by blast
  then show ?R by simp
next
  assume ?R
  then show ?L
    unfolding hull4
    by - (rule exI[of _ "1 - y - z"], rule exI[of _ "x + z - 1"],
          rule exI[of _ "y"], rule exI[of _ "1 - x"], simp)
qed

lemma tetra4_halfspaces:
  "(x, y, z) \<in> convex_hull [(0, 0, 1), (1, 0, 1), (1, 1, 0), (0, 1, 1)] \<longleftrightarrow>
     0 \<le> 2 - x - y - z \<and> 0 \<le> x + z - 1 \<and> 0 \<le> 1 - z \<and> 0 \<le> y + z - 1"
  (is "?L \<longleftrightarrow> ?R")
proof
  assume ?L
  then obtain s t u v where "0 \<le> s" "0 \<le> t" "0 \<le> u" "0 \<le> v"
    "s + t + u + v = 1"
    "x = s * 0 + t * 1 + u * 1 + v * 0"
    "y = s * 0 + t * 0 + u * 1 + v * 1"
    "z = s * 1 + t * 1 + u * 0 + v * 1"
    unfolding hull4 by blast
  then show ?R by simp
next
  assume ?R
  then show ?L
    unfolding hull4
    by - (rule exI[of _ "2 - x - y - z"], rule exI[of _ "x + z - 1"],
          rule exI[of _ "1 - z"], rule exI[of _ "y + z - 1"], simp)
qed

lemma tetra5_halfspaces:
  "(x, y, z) \<in> convex_hull [(1, 1, 0), (1, 0, 1), (1, 1, 1), (0, 1, 1)] \<longleftrightarrow>
     0 \<le> 1 - z \<and> 0 \<le> 1 - y \<and> 0 \<le> x + y + z - 2 \<and> 0 \<le> 1 - x"
  (is "?L \<longleftrightarrow> ?R")
proof
  assume ?L
  then obtain s t u v where "0 \<le> s" "0 \<le> t" "0 \<le> u" "0 \<le> v"
    "s + t + u + v = 1"
    "x = s * 1 + t * 1 + u * 1 + v * 0"
    "y = s * 1 + t * 0 + u * 1 + v * 1"
    "z = s * 0 + t * 1 + u * 1 + v * 1"
    unfolding hull4 by blast
  then show ?R by simp
next
  assume ?R
  then show ?L
    unfolding hull4
    by - (rule exI[of _ "1 - z"], rule exI[of _ "1 - y"],
          rule exI[of _ "x + y + z - 2"], rule exI[of _ "1 - x"], simp)
qed

lemma tetra_meet_0_1:
  "convex_hull [(0, 0, 0), (1, 0, 0), (0, 1, 0), (0, 0, 1)] \<inter>
   convex_hull [(0, 1, 0), (1, 0, 0), (1, 1, 0), (0, 0, 1)]
     = convex_hull [(1, 0, 0), (0, 1, 0), (0, 0, 1)]"
proof (rule set_eqI)
  fix p :: vertex
  obtain x y z where p: "p = (x, y, z)" by (cases p) auto
  show "p \<in> convex_hull [(0, 0, 0), (1, 0, 0), (0, 1, 0), (0, 0, 1)] \<inter>
              convex_hull [(0, 1, 0), (1, 0, 0), (1, 1, 0), (0, 0, 1)]
          \<longleftrightarrow> p \<in> convex_hull [(1, 0, 0), (0, 1, 0), (0, 0, 1)]"
    unfolding p Int_iff tetra0_halfspaces tetra1_halfspaces hull3
  proof (intro iffI; elim exE conjE)
    assume "0 \<le> 1 - x - y - z" "0 \<le> x" "0 \<le> y" "0 \<le> z"
      "0 \<le> 1 - x - z" "0 \<le> 1 - y - z" "0 \<le> x + y + z - 1" "0 \<le> z"
    then show "\<exists>s t u. 0 \<le> s \<and> 0 \<le> t \<and> 0 \<le> u \<and>
        s + t + u = 1 \<and>
        x = s * 1 + t * 0 + u * 0 \<and> y = s * 0 + t * 1 + u * 0 \<and>
        z = s * 0 + t * 0 + u * 1"
      by - (rule exI[of _ "x"], rule exI[of _ "y"], rule exI[of _ "z"],
            intro conjI; simp; linarith?)
  next
    fix s t u :: real
    assume "0 \<le> s" "0 \<le> t" "0 \<le> u" "s + t + u = 1"
      "x = s * 1 + t * 0 + u * 0" "y = s * 0 + t * 1 + u * 0"
      "z = s * 0 + t * 0 + u * 1"
    then show
      "(0 \<le> 1 - x - y - z \<and> 0 \<le> x \<and> 0 \<le> y \<and> 0 \<le> z) \<and>
       (0 \<le> 1 - x - z \<and> 0 \<le> 1 - y - z \<and> 0 \<le> x + y + z - 1 \<and> 0 \<le> z)"
      by (intro conjI; simp; linarith?)
  qed
qed

lemma tetra_meet_0_2:
  "convex_hull [(0, 0, 0), (1, 0, 0), (0, 1, 0), (0, 0, 1)] \<inter>
   convex_hull [(0, 0, 1), (1, 1, 0), (0, 1, 0), (0, 1, 1)]
     = convex_hull [(0, 1, 0), (0, 0, 1)]"
proof (rule set_eqI)
  fix p :: vertex
  obtain x y z where p: "p = (x, y, z)" by (cases p) auto
  show "p \<in> convex_hull [(0, 0, 0), (1, 0, 0), (0, 1, 0), (0, 0, 1)] \<inter>
              convex_hull [(0, 0, 1), (1, 1, 0), (0, 1, 0), (0, 1, 1)]
          \<longleftrightarrow> p \<in> convex_hull [(0, 1, 0), (0, 0, 1)]"
    unfolding p Int_iff tetra0_halfspaces tetra2_halfspaces hull2
  proof (intro iffI; elim exE conjE)
    assume "0 \<le> 1 - x - y - z" "0 \<le> x" "0 \<le> y" "0 \<le> z"
      "0 \<le> 1 - y" "0 \<le> x" "0 \<le> 1 - x - z" "0 \<le> y + z - 1"
    then show "\<exists>s t. 0 \<le> s \<and> 0 \<le> t \<and>
        s + t = 1 \<and>
        x = s * 0 + t * 0 \<and> y = s * 1 + t * 0 \<and>
        z = s * 0 + t * 1"
      by - (rule exI[of _ "y"], rule exI[of _ "z"],
            intro conjI; simp; linarith?)
  next
    fix s t :: real
    assume "0 \<le> s" "0 \<le> t" "s + t = 1"
      "x = s * 0 + t * 0" "y = s * 1 + t * 0"
      "z = s * 0 + t * 1"
    then show
      "(0 \<le> 1 - x - y - z \<and> 0 \<le> x \<and> 0 \<le> y \<and> 0 \<le> z) \<and>
       (0 \<le> 1 - y \<and> 0 \<le> x \<and> 0 \<le> 1 - x - z \<and> 0 \<le> y + z - 1)"
      by (intro conjI; simp; linarith?)
  qed
qed

lemma tetra_meet_0_3:
  "convex_hull [(0, 0, 0), (1, 0, 0), (0, 1, 0), (0, 0, 1)] \<inter>
   convex_hull [(1, 0, 0), (1, 0, 1), (1, 1, 0), (0, 0, 1)]
     = convex_hull [(1, 0, 0), (0, 0, 1)]"
proof (rule set_eqI)
  fix p :: vertex
  obtain x y z where p: "p = (x, y, z)" by (cases p) auto
  show "p \<in> convex_hull [(0, 0, 0), (1, 0, 0), (0, 1, 0), (0, 0, 1)] \<inter>
              convex_hull [(1, 0, 0), (1, 0, 1), (1, 1, 0), (0, 0, 1)]
          \<longleftrightarrow> p \<in> convex_hull [(1, 0, 0), (0, 0, 1)]"
    unfolding p Int_iff tetra0_halfspaces tetra3_halfspaces hull2
  proof (intro iffI; elim exE conjE)
    assume "0 \<le> 1 - x - y - z" "0 \<le> x" "0 \<le> y" "0 \<le> z"
      "0 \<le> 1 - y - z" "0 \<le> x + z - 1" "0 \<le> y" "0 \<le> 1 - x"
    then show "\<exists>s t. 0 \<le> s \<and> 0 \<le> t \<and>
        s + t = 1 \<and>
        x = s * 1 + t * 0 \<and> y = s * 0 + t * 0 \<and>
        z = s * 0 + t * 1"
      by - (rule exI[of _ "x"], rule exI[of _ "z"],
            intro conjI; simp; linarith?)
  next
    fix s t :: real
    assume "0 \<le> s" "0 \<le> t" "s + t = 1"
      "x = s * 1 + t * 0" "y = s * 0 + t * 0"
      "z = s * 0 + t * 1"
    then show
      "(0 \<le> 1 - x - y - z \<and> 0 \<le> x \<and> 0 \<le> y \<and> 0 \<le> z) \<and>
       (0 \<le> 1 - y - z \<and> 0 \<le> x + z - 1 \<and> 0 \<le> y \<and> 0 \<le> 1 - x)"
      by (intro conjI; simp; linarith?)
  qed
qed

lemma tetra_meet_0_4:
  "convex_hull [(0, 0, 0), (1, 0, 0), (0, 1, 0), (0, 0, 1)] \<inter>
   convex_hull [(0, 0, 1), (1, 0, 1), (1, 1, 0), (0, 1, 1)]
     = convex_hull [(0, 0, 1)]"
proof (rule set_eqI)
  fix p :: vertex
  obtain x y z where p: "p = (x, y, z)" by (cases p) auto
  show "p \<in> convex_hull [(0, 0, 0), (1, 0, 0), (0, 1, 0), (0, 0, 1)] \<inter>
              convex_hull [(0, 0, 1), (1, 0, 1), (1, 1, 0), (0, 1, 1)]
          \<longleftrightarrow> p \<in> convex_hull [(0, 0, 1)]"
    unfolding p Int_iff tetra0_halfspaces tetra4_halfspaces hull1
    by (intro iffI; elim conjE; intro conjI; linarith)
qed

lemma tetra_meet_0_5:
  "convex_hull [(0, 0, 0), (1, 0, 0), (0, 1, 0), (0, 0, 1)] \<inter>
   convex_hull [(1, 1, 0), (1, 0, 1), (1, 1, 1), (0, 1, 1)]
     = convex_hull []"
proof (rule set_eqI)
  fix p :: vertex
  obtain x y z where p: "p = (x, y, z)" by (cases p) auto
  show "p \<in> convex_hull [(0, 0, 0), (1, 0, 0), (0, 1, 0), (0, 0, 1)] \<inter>
              convex_hull [(1, 1, 0), (1, 0, 1), (1, 1, 1), (0, 1, 1)]
          \<longleftrightarrow> p \<in> convex_hull []"
    unfolding p Int_iff tetra0_halfspaces tetra5_halfspaces
    using hull0[of "(x, y, z)"] by auto
qed

lemma tetra_meet_1_0:
  "convex_hull [(0, 1, 0), (1, 0, 0), (1, 1, 0), (0, 0, 1)] \<inter>
   convex_hull [(0, 0, 0), (1, 0, 0), (0, 1, 0), (0, 0, 1)]
     = convex_hull [(0, 1, 0), (1, 0, 0), (0, 0, 1)]"
proof (rule set_eqI)
  fix p :: vertex
  obtain x y z where p: "p = (x, y, z)" by (cases p) auto
  show "p \<in> convex_hull [(0, 1, 0), (1, 0, 0), (1, 1, 0), (0, 0, 1)] \<inter>
              convex_hull [(0, 0, 0), (1, 0, 0), (0, 1, 0), (0, 0, 1)]
          \<longleftrightarrow> p \<in> convex_hull [(0, 1, 0), (1, 0, 0), (0, 0, 1)]"
    unfolding p Int_iff tetra1_halfspaces tetra0_halfspaces hull3
  proof (intro iffI; elim exE conjE)
    assume "0 \<le> 1 - x - z" "0 \<le> 1 - y - z" "0 \<le> x + y + z - 1" "0 \<le> z"
      "0 \<le> 1 - x - y - z" "0 \<le> x" "0 \<le> y" "0 \<le> z"
    then show "\<exists>s t u. 0 \<le> s \<and> 0 \<le> t \<and> 0 \<le> u \<and>
        s + t + u = 1 \<and>
        x = s * 0 + t * 1 + u * 0 \<and> y = s * 1 + t * 0 + u * 0 \<and>
        z = s * 0 + t * 0 + u * 1"
      by - (rule exI[of _ "1 - x - z"], rule exI[of _ "1 - y - z"], rule exI[of _ "z"],
            intro conjI; simp; linarith?)
  next
    fix s t u :: real
    assume "0 \<le> s" "0 \<le> t" "0 \<le> u" "s + t + u = 1"
      "x = s * 0 + t * 1 + u * 0" "y = s * 1 + t * 0 + u * 0"
      "z = s * 0 + t * 0 + u * 1"
    then show
      "(0 \<le> 1 - x - z \<and> 0 \<le> 1 - y - z \<and> 0 \<le> x + y + z - 1 \<and> 0 \<le> z) \<and>
       (0 \<le> 1 - x - y - z \<and> 0 \<le> x \<and> 0 \<le> y \<and> 0 \<le> z)"
      by (intro conjI; simp; linarith?)
  qed
qed

lemma tetra_meet_1_2:
  "convex_hull [(0, 1, 0), (1, 0, 0), (1, 1, 0), (0, 0, 1)] \<inter>
   convex_hull [(0, 0, 1), (1, 1, 0), (0, 1, 0), (0, 1, 1)]
     = convex_hull [(0, 1, 0), (1, 1, 0), (0, 0, 1)]"
proof (rule set_eqI)
  fix p :: vertex
  obtain x y z where p: "p = (x, y, z)" by (cases p) auto
  show "p \<in> convex_hull [(0, 1, 0), (1, 0, 0), (1, 1, 0), (0, 0, 1)] \<inter>
              convex_hull [(0, 0, 1), (1, 1, 0), (0, 1, 0), (0, 1, 1)]
          \<longleftrightarrow> p \<in> convex_hull [(0, 1, 0), (1, 1, 0), (0, 0, 1)]"
    unfolding p Int_iff tetra1_halfspaces tetra2_halfspaces hull3
  proof (intro iffI; elim exE conjE)
    assume "0 \<le> 1 - x - z" "0 \<le> 1 - y - z" "0 \<le> x + y + z - 1" "0 \<le> z"
      "0 \<le> 1 - y" "0 \<le> x" "0 \<le> 1 - x - z" "0 \<le> y + z - 1"
    then show "\<exists>s t u. 0 \<le> s \<and> 0 \<le> t \<and> 0 \<le> u \<and>
        s + t + u = 1 \<and>
        x = s * 0 + t * 1 + u * 0 \<and> y = s * 1 + t * 1 + u * 0 \<and>
        z = s * 0 + t * 0 + u * 1"
      by - (rule exI[of _ "1 - x - z"], rule exI[of _ "x + y + z - 1"], rule exI[of _ "z"],
            intro conjI; simp; linarith?)
  next
    fix s t u :: real
    assume "0 \<le> s" "0 \<le> t" "0 \<le> u" "s + t + u = 1"
      "x = s * 0 + t * 1 + u * 0" "y = s * 1 + t * 1 + u * 0"
      "z = s * 0 + t * 0 + u * 1"
    then show
      "(0 \<le> 1 - x - z \<and> 0 \<le> 1 - y - z \<and> 0 \<le> x + y + z - 1 \<and> 0 \<le> z) \<and>
       (0 \<le> 1 - y \<and> 0 \<le> x \<and> 0 \<le> 1 - x - z \<and> 0 \<le> y + z - 1)"
      by (intro conjI; simp; linarith?)
  qed
qed

lemma tetra_meet_1_3:
  "convex_hull [(0, 1, 0), (1, 0, 0), (1, 1, 0), (0, 0, 1)] \<inter>
   convex_hull [(1, 0, 0), (1, 0, 1), (1, 1, 0), (0, 0, 1)]
     = convex_hull [(1, 0, 0), (1, 1, 0), (0, 0, 1)]"
proof (rule set_eqI)
  fix p :: vertex
  obtain x y z where p: "p = (x, y, z)" by (cases p) auto
  show "p \<in> convex_hull [(0, 1, 0), (1, 0, 0), (1, 1, 0), (0, 0, 1)] \<inter>
              convex_hull [(1, 0, 0), (1, 0, 1), (1, 1, 0), (0, 0, 1)]
          \<longleftrightarrow> p \<in> convex_hull [(1, 0, 0), (1, 1, 0), (0, 0, 1)]"
    unfolding p Int_iff tetra1_halfspaces tetra3_halfspaces hull3
  proof (intro iffI; elim exE conjE)
    assume "0 \<le> 1 - x - z" "0 \<le> 1 - y - z" "0 \<le> x + y + z - 1" "0 \<le> z"
      "0 \<le> 1 - y - z" "0 \<le> x + z - 1" "0 \<le> y" "0 \<le> 1 - x"
    then show "\<exists>s t u. 0 \<le> s \<and> 0 \<le> t \<and> 0 \<le> u \<and>
        s + t + u = 1 \<and>
        x = s * 1 + t * 1 + u * 0 \<and> y = s * 0 + t * 1 + u * 0 \<and>
        z = s * 0 + t * 0 + u * 1"
      by - (rule exI[of _ "1 - y - z"], rule exI[of _ "x + y + z - 1"], rule exI[of _ "z"],
            intro conjI; simp; linarith?)
  next
    fix s t u :: real
    assume "0 \<le> s" "0 \<le> t" "0 \<le> u" "s + t + u = 1"
      "x = s * 1 + t * 1 + u * 0" "y = s * 0 + t * 1 + u * 0"
      "z = s * 0 + t * 0 + u * 1"
    then show
      "(0 \<le> 1 - x - z \<and> 0 \<le> 1 - y - z \<and> 0 \<le> x + y + z - 1 \<and> 0 \<le> z) \<and>
       (0 \<le> 1 - y - z \<and> 0 \<le> x + z - 1 \<and> 0 \<le> y \<and> 0 \<le> 1 - x)"
      by (intro conjI; simp; linarith?)
  qed
qed

lemma tetra_meet_1_4:
  "convex_hull [(0, 1, 0), (1, 0, 0), (1, 1, 0), (0, 0, 1)] \<inter>
   convex_hull [(0, 0, 1), (1, 0, 1), (1, 1, 0), (0, 1, 1)]
     = convex_hull [(1, 1, 0), (0, 0, 1)]"
proof (rule set_eqI)
  fix p :: vertex
  obtain x y z where p: "p = (x, y, z)" by (cases p) auto
  show "p \<in> convex_hull [(0, 1, 0), (1, 0, 0), (1, 1, 0), (0, 0, 1)] \<inter>
              convex_hull [(0, 0, 1), (1, 0, 1), (1, 1, 0), (0, 1, 1)]
          \<longleftrightarrow> p \<in> convex_hull [(1, 1, 0), (0, 0, 1)]"
    unfolding p Int_iff tetra1_halfspaces tetra4_halfspaces hull2
  proof (intro iffI; elim exE conjE)
    assume "0 \<le> 1 - x - z" "0 \<le> 1 - y - z" "0 \<le> x + y + z - 1" "0 \<le> z"
      "0 \<le> 2 - x - y - z" "0 \<le> x + z - 1" "0 \<le> 1 - z" "0 \<le> y + z - 1"
    then show "\<exists>s t. 0 \<le> s \<and> 0 \<le> t \<and>
        s + t = 1 \<and>
        x = s * 1 + t * 0 \<and> y = s * 1 + t * 0 \<and>
        z = s * 0 + t * 1"
      by - (rule exI[of _ "x + y + z - 1"], rule exI[of _ "z"],
            intro conjI; simp; linarith?)
  next
    fix s t :: real
    assume "0 \<le> s" "0 \<le> t" "s + t = 1"
      "x = s * 1 + t * 0" "y = s * 1 + t * 0"
      "z = s * 0 + t * 1"
    then show
      "(0 \<le> 1 - x - z \<and> 0 \<le> 1 - y - z \<and> 0 \<le> x + y + z - 1 \<and> 0 \<le> z) \<and>
       (0 \<le> 2 - x - y - z \<and> 0 \<le> x + z - 1 \<and> 0 \<le> 1 - z \<and> 0 \<le> y + z - 1)"
      by (intro conjI; simp; linarith?)
  qed
qed

lemma tetra_meet_1_5:
  "convex_hull [(0, 1, 0), (1, 0, 0), (1, 1, 0), (0, 0, 1)] \<inter>
   convex_hull [(1, 1, 0), (1, 0, 1), (1, 1, 1), (0, 1, 1)]
     = convex_hull [(1, 1, 0)]"
proof (rule set_eqI)
  fix p :: vertex
  obtain x y z where p: "p = (x, y, z)" by (cases p) auto
  show "p \<in> convex_hull [(0, 1, 0), (1, 0, 0), (1, 1, 0), (0, 0, 1)] \<inter>
              convex_hull [(1, 1, 0), (1, 0, 1), (1, 1, 1), (0, 1, 1)]
          \<longleftrightarrow> p \<in> convex_hull [(1, 1, 0)]"
    unfolding p Int_iff tetra1_halfspaces tetra5_halfspaces hull1
    by (intro iffI; elim conjE; intro conjI; linarith)
qed

lemma tetra_meet_2_0:
  "convex_hull [(0, 0, 1), (1, 1, 0), (0, 1, 0), (0, 1, 1)] \<inter>
   convex_hull [(0, 0, 0), (1, 0, 0), (0, 1, 0), (0, 0, 1)]
     = convex_hull [(0, 0, 1), (0, 1, 0)]"
proof (rule set_eqI)
  fix p :: vertex
  obtain x y z where p: "p = (x, y, z)" by (cases p) auto
  show "p \<in> convex_hull [(0, 0, 1), (1, 1, 0), (0, 1, 0), (0, 1, 1)] \<inter>
              convex_hull [(0, 0, 0), (1, 0, 0), (0, 1, 0), (0, 0, 1)]
          \<longleftrightarrow> p \<in> convex_hull [(0, 0, 1), (0, 1, 0)]"
    unfolding p Int_iff tetra2_halfspaces tetra0_halfspaces hull2
  proof (intro iffI; elim exE conjE)
    assume "0 \<le> 1 - y" "0 \<le> x" "0 \<le> 1 - x - z" "0 \<le> y + z - 1"
      "0 \<le> 1 - x - y - z" "0 \<le> x" "0 \<le> y" "0 \<le> z"
    then show "\<exists>s t. 0 \<le> s \<and> 0 \<le> t \<and>
        s + t = 1 \<and>
        x = s * 0 + t * 0 \<and> y = s * 0 + t * 1 \<and>
        z = s * 1 + t * 0"
      by - (rule exI[of _ "1 - y"], rule exI[of _ "1 - x - z"],
            intro conjI; simp; linarith?)
  next
    fix s t :: real
    assume "0 \<le> s" "0 \<le> t" "s + t = 1"
      "x = s * 0 + t * 0" "y = s * 0 + t * 1"
      "z = s * 1 + t * 0"
    then show
      "(0 \<le> 1 - y \<and> 0 \<le> x \<and> 0 \<le> 1 - x - z \<and> 0 \<le> y + z - 1) \<and>
       (0 \<le> 1 - x - y - z \<and> 0 \<le> x \<and> 0 \<le> y \<and> 0 \<le> z)"
      by (intro conjI; simp; linarith?)
  qed
qed

lemma tetra_meet_2_1:
  "convex_hull [(0, 0, 1), (1, 1, 0), (0, 1, 0), (0, 1, 1)] \<inter>
   convex_hull [(0, 1, 0), (1, 0, 0), (1, 1, 0), (0, 0, 1)]
     = convex_hull [(0, 0, 1), (1, 1, 0), (0, 1, 0)]"
proof (rule set_eqI)
  fix p :: vertex
  obtain x y z where p: "p = (x, y, z)" by (cases p) auto
  show "p \<in> convex_hull [(0, 0, 1), (1, 1, 0), (0, 1, 0), (0, 1, 1)] \<inter>
              convex_hull [(0, 1, 0), (1, 0, 0), (1, 1, 0), (0, 0, 1)]
          \<longleftrightarrow> p \<in> convex_hull [(0, 0, 1), (1, 1, 0), (0, 1, 0)]"
    unfolding p Int_iff tetra2_halfspaces tetra1_halfspaces hull3
  proof (intro iffI; elim exE conjE)
    assume "0 \<le> 1 - y" "0 \<le> x" "0 \<le> 1 - x - z" "0 \<le> y + z - 1"
      "0 \<le> 1 - x - z" "0 \<le> 1 - y - z" "0 \<le> x + y + z - 1" "0 \<le> z"
    then show "\<exists>s t u. 0 \<le> s \<and> 0 \<le> t \<and> 0 \<le> u \<and>
        s + t + u = 1 \<and>
        x = s * 0 + t * 1 + u * 0 \<and> y = s * 0 + t * 1 + u * 1 \<and>
        z = s * 1 + t * 0 + u * 0"
      by - (rule exI[of _ "1 - y"], rule exI[of _ "x"], rule exI[of _ "1 - x - z"],
            intro conjI; simp; linarith?)
  next
    fix s t u :: real
    assume "0 \<le> s" "0 \<le> t" "0 \<le> u" "s + t + u = 1"
      "x = s * 0 + t * 1 + u * 0" "y = s * 0 + t * 1 + u * 1"
      "z = s * 1 + t * 0 + u * 0"
    then show
      "(0 \<le> 1 - y \<and> 0 \<le> x \<and> 0 \<le> 1 - x - z \<and> 0 \<le> y + z - 1) \<and>
       (0 \<le> 1 - x - z \<and> 0 \<le> 1 - y - z \<and> 0 \<le> x + y + z - 1 \<and> 0 \<le> z)"
      by (intro conjI; simp; linarith?)
  qed
qed

lemma tetra_meet_2_3:
  "convex_hull [(0, 0, 1), (1, 1, 0), (0, 1, 0), (0, 1, 1)] \<inter>
   convex_hull [(1, 0, 0), (1, 0, 1), (1, 1, 0), (0, 0, 1)]
     = convex_hull [(0, 0, 1), (1, 1, 0)]"
proof (rule set_eqI)
  fix p :: vertex
  obtain x y z where p: "p = (x, y, z)" by (cases p) auto
  show "p \<in> convex_hull [(0, 0, 1), (1, 1, 0), (0, 1, 0), (0, 1, 1)] \<inter>
              convex_hull [(1, 0, 0), (1, 0, 1), (1, 1, 0), (0, 0, 1)]
          \<longleftrightarrow> p \<in> convex_hull [(0, 0, 1), (1, 1, 0)]"
    unfolding p Int_iff tetra2_halfspaces tetra3_halfspaces hull2
  proof (intro iffI; elim exE conjE)
    assume "0 \<le> 1 - y" "0 \<le> x" "0 \<le> 1 - x - z" "0 \<le> y + z - 1"
      "0 \<le> 1 - y - z" "0 \<le> x + z - 1" "0 \<le> y" "0 \<le> 1 - x"
    then show "\<exists>s t. 0 \<le> s \<and> 0 \<le> t \<and>
        s + t = 1 \<and>
        x = s * 0 + t * 1 \<and> y = s * 0 + t * 1 \<and>
        z = s * 1 + t * 0"
      by - (rule exI[of _ "1 - y"], rule exI[of _ "x"],
            intro conjI; simp; linarith?)
  next
    fix s t :: real
    assume "0 \<le> s" "0 \<le> t" "s + t = 1"
      "x = s * 0 + t * 1" "y = s * 0 + t * 1"
      "z = s * 1 + t * 0"
    then show
      "(0 \<le> 1 - y \<and> 0 \<le> x \<and> 0 \<le> 1 - x - z \<and> 0 \<le> y + z - 1) \<and>
       (0 \<le> 1 - y - z \<and> 0 \<le> x + z - 1 \<and> 0 \<le> y \<and> 0 \<le> 1 - x)"
      by (intro conjI; simp; linarith?)
  qed
qed

lemma tetra_meet_2_4:
  "convex_hull [(0, 0, 1), (1, 1, 0), (0, 1, 0), (0, 1, 1)] \<inter>
   convex_hull [(0, 0, 1), (1, 0, 1), (1, 1, 0), (0, 1, 1)]
     = convex_hull [(0, 0, 1), (1, 1, 0), (0, 1, 1)]"
proof (rule set_eqI)
  fix p :: vertex
  obtain x y z where p: "p = (x, y, z)" by (cases p) auto
  show "p \<in> convex_hull [(0, 0, 1), (1, 1, 0), (0, 1, 0), (0, 1, 1)] \<inter>
              convex_hull [(0, 0, 1), (1, 0, 1), (1, 1, 0), (0, 1, 1)]
          \<longleftrightarrow> p \<in> convex_hull [(0, 0, 1), (1, 1, 0), (0, 1, 1)]"
    unfolding p Int_iff tetra2_halfspaces tetra4_halfspaces hull3
  proof (intro iffI; elim exE conjE)
    assume "0 \<le> 1 - y" "0 \<le> x" "0 \<le> 1 - x - z" "0 \<le> y + z - 1"
      "0 \<le> 2 - x - y - z" "0 \<le> x + z - 1" "0 \<le> 1 - z" "0 \<le> y + z - 1"
    then show "\<exists>s t u. 0 \<le> s \<and> 0 \<le> t \<and> 0 \<le> u \<and>
        s + t + u = 1 \<and>
        x = s * 0 + t * 1 + u * 0 \<and> y = s * 0 + t * 1 + u * 1 \<and>
        z = s * 1 + t * 0 + u * 1"
      by - (rule exI[of _ "1 - y"], rule exI[of _ "x"], rule exI[of _ "y + z - 1"],
            intro conjI; simp; linarith?)
  next
    fix s t u :: real
    assume "0 \<le> s" "0 \<le> t" "0 \<le> u" "s + t + u = 1"
      "x = s * 0 + t * 1 + u * 0" "y = s * 0 + t * 1 + u * 1"
      "z = s * 1 + t * 0 + u * 1"
    then show
      "(0 \<le> 1 - y \<and> 0 \<le> x \<and> 0 \<le> 1 - x - z \<and> 0 \<le> y + z - 1) \<and>
       (0 \<le> 2 - x - y - z \<and> 0 \<le> x + z - 1 \<and> 0 \<le> 1 - z \<and> 0 \<le> y + z - 1)"
      by (intro conjI; simp; linarith?)
  qed
qed

lemma tetra_meet_2_5:
  "convex_hull [(0, 0, 1), (1, 1, 0), (0, 1, 0), (0, 1, 1)] \<inter>
   convex_hull [(1, 1, 0), (1, 0, 1), (1, 1, 1), (0, 1, 1)]
     = convex_hull [(1, 1, 0), (0, 1, 1)]"
proof (rule set_eqI)
  fix p :: vertex
  obtain x y z where p: "p = (x, y, z)" by (cases p) auto
  show "p \<in> convex_hull [(0, 0, 1), (1, 1, 0), (0, 1, 0), (0, 1, 1)] \<inter>
              convex_hull [(1, 1, 0), (1, 0, 1), (1, 1, 1), (0, 1, 1)]
          \<longleftrightarrow> p \<in> convex_hull [(1, 1, 0), (0, 1, 1)]"
    unfolding p Int_iff tetra2_halfspaces tetra5_halfspaces hull2
  proof (intro iffI; elim exE conjE)
    assume "0 \<le> 1 - y" "0 \<le> x" "0 \<le> 1 - x - z" "0 \<le> y + z - 1"
      "0 \<le> 1 - z" "0 \<le> 1 - y" "0 \<le> x + y + z - 2" "0 \<le> 1 - x"
    then show "\<exists>s t. 0 \<le> s \<and> 0 \<le> t \<and>
        s + t = 1 \<and>
        x = s * 1 + t * 0 \<and> y = s * 1 + t * 1 \<and>
        z = s * 0 + t * 1"
      by - (rule exI[of _ "x"], rule exI[of _ "y + z - 1"],
            intro conjI; simp; linarith?)
  next
    fix s t :: real
    assume "0 \<le> s" "0 \<le> t" "s + t = 1"
      "x = s * 1 + t * 0" "y = s * 1 + t * 1"
      "z = s * 0 + t * 1"
    then show
      "(0 \<le> 1 - y \<and> 0 \<le> x \<and> 0 \<le> 1 - x - z \<and> 0 \<le> y + z - 1) \<and>
       (0 \<le> 1 - z \<and> 0 \<le> 1 - y \<and> 0 \<le> x + y + z - 2 \<and> 0 \<le> 1 - x)"
      by (intro conjI; simp; linarith?)
  qed
qed

lemma tetra_meet_3_0:
  "convex_hull [(1, 0, 0), (1, 0, 1), (1, 1, 0), (0, 0, 1)] \<inter>
   convex_hull [(0, 0, 0), (1, 0, 0), (0, 1, 0), (0, 0, 1)]
     = convex_hull [(1, 0, 0), (0, 0, 1)]"
proof (rule set_eqI)
  fix p :: vertex
  obtain x y z where p: "p = (x, y, z)" by (cases p) auto
  show "p \<in> convex_hull [(1, 0, 0), (1, 0, 1), (1, 1, 0), (0, 0, 1)] \<inter>
              convex_hull [(0, 0, 0), (1, 0, 0), (0, 1, 0), (0, 0, 1)]
          \<longleftrightarrow> p \<in> convex_hull [(1, 0, 0), (0, 0, 1)]"
    unfolding p Int_iff tetra3_halfspaces tetra0_halfspaces hull2
  proof (intro iffI; elim exE conjE)
    assume "0 \<le> 1 - y - z" "0 \<le> x + z - 1" "0 \<le> y" "0 \<le> 1 - x"
      "0 \<le> 1 - x - y - z" "0 \<le> x" "0 \<le> y" "0 \<le> z"
    then show "\<exists>s t. 0 \<le> s \<and> 0 \<le> t \<and>
        s + t = 1 \<and>
        x = s * 1 + t * 0 \<and> y = s * 0 + t * 0 \<and>
        z = s * 0 + t * 1"
      by - (rule exI[of _ "1 - y - z"], rule exI[of _ "1 - x"],
            intro conjI; simp; linarith?)
  next
    fix s t :: real
    assume "0 \<le> s" "0 \<le> t" "s + t = 1"
      "x = s * 1 + t * 0" "y = s * 0 + t * 0"
      "z = s * 0 + t * 1"
    then show
      "(0 \<le> 1 - y - z \<and> 0 \<le> x + z - 1 \<and> 0 \<le> y \<and> 0 \<le> 1 - x) \<and>
       (0 \<le> 1 - x - y - z \<and> 0 \<le> x \<and> 0 \<le> y \<and> 0 \<le> z)"
      by (intro conjI; simp; linarith?)
  qed
qed

lemma tetra_meet_3_1:
  "convex_hull [(1, 0, 0), (1, 0, 1), (1, 1, 0), (0, 0, 1)] \<inter>
   convex_hull [(0, 1, 0), (1, 0, 0), (1, 1, 0), (0, 0, 1)]
     = convex_hull [(1, 0, 0), (1, 1, 0), (0, 0, 1)]"
proof (rule set_eqI)
  fix p :: vertex
  obtain x y z where p: "p = (x, y, z)" by (cases p) auto
  show "p \<in> convex_hull [(1, 0, 0), (1, 0, 1), (1, 1, 0), (0, 0, 1)] \<inter>
              convex_hull [(0, 1, 0), (1, 0, 0), (1, 1, 0), (0, 0, 1)]
          \<longleftrightarrow> p \<in> convex_hull [(1, 0, 0), (1, 1, 0), (0, 0, 1)]"
    unfolding p Int_iff tetra3_halfspaces tetra1_halfspaces hull3
  proof (intro iffI; elim exE conjE)
    assume "0 \<le> 1 - y - z" "0 \<le> x + z - 1" "0 \<le> y" "0 \<le> 1 - x"
      "0 \<le> 1 - x - z" "0 \<le> 1 - y - z" "0 \<le> x + y + z - 1" "0 \<le> z"
    then show "\<exists>s t u. 0 \<le> s \<and> 0 \<le> t \<and> 0 \<le> u \<and>
        s + t + u = 1 \<and>
        x = s * 1 + t * 1 + u * 0 \<and> y = s * 0 + t * 1 + u * 0 \<and>
        z = s * 0 + t * 0 + u * 1"
      by - (rule exI[of _ "1 - y - z"], rule exI[of _ "y"], rule exI[of _ "1 - x"],
            intro conjI; simp; linarith?)
  next
    fix s t u :: real
    assume "0 \<le> s" "0 \<le> t" "0 \<le> u" "s + t + u = 1"
      "x = s * 1 + t * 1 + u * 0" "y = s * 0 + t * 1 + u * 0"
      "z = s * 0 + t * 0 + u * 1"
    then show
      "(0 \<le> 1 - y - z \<and> 0 \<le> x + z - 1 \<and> 0 \<le> y \<and> 0 \<le> 1 - x) \<and>
       (0 \<le> 1 - x - z \<and> 0 \<le> 1 - y - z \<and> 0 \<le> x + y + z - 1 \<and> 0 \<le> z)"
      by (intro conjI; simp; linarith?)
  qed
qed

lemma tetra_meet_3_2:
  "convex_hull [(1, 0, 0), (1, 0, 1), (1, 1, 0), (0, 0, 1)] \<inter>
   convex_hull [(0, 0, 1), (1, 1, 0), (0, 1, 0), (0, 1, 1)]
     = convex_hull [(1, 1, 0), (0, 0, 1)]"
proof (rule set_eqI)
  fix p :: vertex
  obtain x y z where p: "p = (x, y, z)" by (cases p) auto
  show "p \<in> convex_hull [(1, 0, 0), (1, 0, 1), (1, 1, 0), (0, 0, 1)] \<inter>
              convex_hull [(0, 0, 1), (1, 1, 0), (0, 1, 0), (0, 1, 1)]
          \<longleftrightarrow> p \<in> convex_hull [(1, 1, 0), (0, 0, 1)]"
    unfolding p Int_iff tetra3_halfspaces tetra2_halfspaces hull2
  proof (intro iffI; elim exE conjE)
    assume "0 \<le> 1 - y - z" "0 \<le> x + z - 1" "0 \<le> y" "0 \<le> 1 - x"
      "0 \<le> 1 - y" "0 \<le> x" "0 \<le> 1 - x - z" "0 \<le> y + z - 1"
    then show "\<exists>s t. 0 \<le> s \<and> 0 \<le> t \<and>
        s + t = 1 \<and>
        x = s * 1 + t * 0 \<and> y = s * 1 + t * 0 \<and>
        z = s * 0 + t * 1"
      by - (rule exI[of _ "y"], rule exI[of _ "1 - x"],
            intro conjI; simp; linarith?)
  next
    fix s t :: real
    assume "0 \<le> s" "0 \<le> t" "s + t = 1"
      "x = s * 1 + t * 0" "y = s * 1 + t * 0"
      "z = s * 0 + t * 1"
    then show
      "(0 \<le> 1 - y - z \<and> 0 \<le> x + z - 1 \<and> 0 \<le> y \<and> 0 \<le> 1 - x) \<and>
       (0 \<le> 1 - y \<and> 0 \<le> x \<and> 0 \<le> 1 - x - z \<and> 0 \<le> y + z - 1)"
      by (intro conjI; simp; linarith?)
  qed
qed

lemma tetra_meet_3_4:
  "convex_hull [(1, 0, 0), (1, 0, 1), (1, 1, 0), (0, 0, 1)] \<inter>
   convex_hull [(0, 0, 1), (1, 0, 1), (1, 1, 0), (0, 1, 1)]
     = convex_hull [(1, 0, 1), (1, 1, 0), (0, 0, 1)]"
proof (rule set_eqI)
  fix p :: vertex
  obtain x y z where p: "p = (x, y, z)" by (cases p) auto
  show "p \<in> convex_hull [(1, 0, 0), (1, 0, 1), (1, 1, 0), (0, 0, 1)] \<inter>
              convex_hull [(0, 0, 1), (1, 0, 1), (1, 1, 0), (0, 1, 1)]
          \<longleftrightarrow> p \<in> convex_hull [(1, 0, 1), (1, 1, 0), (0, 0, 1)]"
    unfolding p Int_iff tetra3_halfspaces tetra4_halfspaces hull3
  proof (intro iffI; elim exE conjE)
    assume "0 \<le> 1 - y - z" "0 \<le> x + z - 1" "0 \<le> y" "0 \<le> 1 - x"
      "0 \<le> 2 - x - y - z" "0 \<le> x + z - 1" "0 \<le> 1 - z" "0 \<le> y + z - 1"
    then show "\<exists>s t u. 0 \<le> s \<and> 0 \<le> t \<and> 0 \<le> u \<and>
        s + t + u = 1 \<and>
        x = s * 1 + t * 1 + u * 0 \<and> y = s * 0 + t * 1 + u * 0 \<and>
        z = s * 1 + t * 0 + u * 1"
      by - (rule exI[of _ "x + z - 1"], rule exI[of _ "y"], rule exI[of _ "1 - x"],
            intro conjI; simp; linarith?)
  next
    fix s t u :: real
    assume "0 \<le> s" "0 \<le> t" "0 \<le> u" "s + t + u = 1"
      "x = s * 1 + t * 1 + u * 0" "y = s * 0 + t * 1 + u * 0"
      "z = s * 1 + t * 0 + u * 1"
    then show
      "(0 \<le> 1 - y - z \<and> 0 \<le> x + z - 1 \<and> 0 \<le> y \<and> 0 \<le> 1 - x) \<and>
       (0 \<le> 2 - x - y - z \<and> 0 \<le> x + z - 1 \<and> 0 \<le> 1 - z \<and> 0 \<le> y + z - 1)"
      by (intro conjI; simp; linarith?)
  qed
qed

lemma tetra_meet_3_5:
  "convex_hull [(1, 0, 0), (1, 0, 1), (1, 1, 0), (0, 0, 1)] \<inter>
   convex_hull [(1, 1, 0), (1, 0, 1), (1, 1, 1), (0, 1, 1)]
     = convex_hull [(1, 0, 1), (1, 1, 0)]"
proof (rule set_eqI)
  fix p :: vertex
  obtain x y z where p: "p = (x, y, z)" by (cases p) auto
  show "p \<in> convex_hull [(1, 0, 0), (1, 0, 1), (1, 1, 0), (0, 0, 1)] \<inter>
              convex_hull [(1, 1, 0), (1, 0, 1), (1, 1, 1), (0, 1, 1)]
          \<longleftrightarrow> p \<in> convex_hull [(1, 0, 1), (1, 1, 0)]"
    unfolding p Int_iff tetra3_halfspaces tetra5_halfspaces hull2
  proof (intro iffI; elim exE conjE)
    assume "0 \<le> 1 - y - z" "0 \<le> x + z - 1" "0 \<le> y" "0 \<le> 1 - x"
      "0 \<le> 1 - z" "0 \<le> 1 - y" "0 \<le> x + y + z - 2" "0 \<le> 1 - x"
    then show "\<exists>s t. 0 \<le> s \<and> 0 \<le> t \<and>
        s + t = 1 \<and>
        x = s * 1 + t * 1 \<and> y = s * 0 + t * 1 \<and>
        z = s * 1 + t * 0"
      by - (rule exI[of _ "x + z - 1"], rule exI[of _ "y"],
            intro conjI; simp; linarith?)
  next
    fix s t :: real
    assume "0 \<le> s" "0 \<le> t" "s + t = 1"
      "x = s * 1 + t * 1" "y = s * 0 + t * 1"
      "z = s * 1 + t * 0"
    then show
      "(0 \<le> 1 - y - z \<and> 0 \<le> x + z - 1 \<and> 0 \<le> y \<and> 0 \<le> 1 - x) \<and>
       (0 \<le> 1 - z \<and> 0 \<le> 1 - y \<and> 0 \<le> x + y + z - 2 \<and> 0 \<le> 1 - x)"
      by (intro conjI; simp; linarith?)
  qed
qed

lemma tetra_meet_4_0:
  "convex_hull [(0, 0, 1), (1, 0, 1), (1, 1, 0), (0, 1, 1)] \<inter>
   convex_hull [(0, 0, 0), (1, 0, 0), (0, 1, 0), (0, 0, 1)]
     = convex_hull [(0, 0, 1)]"
proof (rule set_eqI)
  fix p :: vertex
  obtain x y z where p: "p = (x, y, z)" by (cases p) auto
  show "p \<in> convex_hull [(0, 0, 1), (1, 0, 1), (1, 1, 0), (0, 1, 1)] \<inter>
              convex_hull [(0, 0, 0), (1, 0, 0), (0, 1, 0), (0, 0, 1)]
          \<longleftrightarrow> p \<in> convex_hull [(0, 0, 1)]"
    unfolding p Int_iff tetra4_halfspaces tetra0_halfspaces hull1
    by (intro iffI; elim conjE; intro conjI; linarith)
qed

lemma tetra_meet_4_1:
  "convex_hull [(0, 0, 1), (1, 0, 1), (1, 1, 0), (0, 1, 1)] \<inter>
   convex_hull [(0, 1, 0), (1, 0, 0), (1, 1, 0), (0, 0, 1)]
     = convex_hull [(0, 0, 1), (1, 1, 0)]"
proof (rule set_eqI)
  fix p :: vertex
  obtain x y z where p: "p = (x, y, z)" by (cases p) auto
  show "p \<in> convex_hull [(0, 0, 1), (1, 0, 1), (1, 1, 0), (0, 1, 1)] \<inter>
              convex_hull [(0, 1, 0), (1, 0, 0), (1, 1, 0), (0, 0, 1)]
          \<longleftrightarrow> p \<in> convex_hull [(0, 0, 1), (1, 1, 0)]"
    unfolding p Int_iff tetra4_halfspaces tetra1_halfspaces hull2
  proof (intro iffI; elim exE conjE)
    assume "0 \<le> 2 - x - y - z" "0 \<le> x + z - 1" "0 \<le> 1 - z" "0 \<le> y + z - 1"
      "0 \<le> 1 - x - z" "0 \<le> 1 - y - z" "0 \<le> x + y + z - 1" "0 \<le> z"
    then show "\<exists>s t. 0 \<le> s \<and> 0 \<le> t \<and>
        s + t = 1 \<and>
        x = s * 0 + t * 1 \<and> y = s * 0 + t * 1 \<and>
        z = s * 1 + t * 0"
      by - (rule exI[of _ "2 - x - y - z"], rule exI[of _ "1 - z"],
            intro conjI; simp; linarith?)
  next
    fix s t :: real
    assume "0 \<le> s" "0 \<le> t" "s + t = 1"
      "x = s * 0 + t * 1" "y = s * 0 + t * 1"
      "z = s * 1 + t * 0"
    then show
      "(0 \<le> 2 - x - y - z \<and> 0 \<le> x + z - 1 \<and> 0 \<le> 1 - z \<and> 0 \<le> y + z - 1) \<and>
       (0 \<le> 1 - x - z \<and> 0 \<le> 1 - y - z \<and> 0 \<le> x + y + z - 1 \<and> 0 \<le> z)"
      by (intro conjI; simp; linarith?)
  qed
qed

lemma tetra_meet_4_2:
  "convex_hull [(0, 0, 1), (1, 0, 1), (1, 1, 0), (0, 1, 1)] \<inter>
   convex_hull [(0, 0, 1), (1, 1, 0), (0, 1, 0), (0, 1, 1)]
     = convex_hull [(0, 0, 1), (1, 1, 0), (0, 1, 1)]"
proof (rule set_eqI)
  fix p :: vertex
  obtain x y z where p: "p = (x, y, z)" by (cases p) auto
  show "p \<in> convex_hull [(0, 0, 1), (1, 0, 1), (1, 1, 0), (0, 1, 1)] \<inter>
              convex_hull [(0, 0, 1), (1, 1, 0), (0, 1, 0), (0, 1, 1)]
          \<longleftrightarrow> p \<in> convex_hull [(0, 0, 1), (1, 1, 0), (0, 1, 1)]"
    unfolding p Int_iff tetra4_halfspaces tetra2_halfspaces hull3
  proof (intro iffI; elim exE conjE)
    assume "0 \<le> 2 - x - y - z" "0 \<le> x + z - 1" "0 \<le> 1 - z" "0 \<le> y + z - 1"
      "0 \<le> 1 - y" "0 \<le> x" "0 \<le> 1 - x - z" "0 \<le> y + z - 1"
    then show "\<exists>s t u. 0 \<le> s \<and> 0 \<le> t \<and> 0 \<le> u \<and>
        s + t + u = 1 \<and>
        x = s * 0 + t * 1 + u * 0 \<and> y = s * 0 + t * 1 + u * 1 \<and>
        z = s * 1 + t * 0 + u * 1"
      by - (rule exI[of _ "2 - x - y - z"], rule exI[of _ "1 - z"], rule exI[of _ "y + z - 1"],
            intro conjI; simp; linarith?)
  next
    fix s t u :: real
    assume "0 \<le> s" "0 \<le> t" "0 \<le> u" "s + t + u = 1"
      "x = s * 0 + t * 1 + u * 0" "y = s * 0 + t * 1 + u * 1"
      "z = s * 1 + t * 0 + u * 1"
    then show
      "(0 \<le> 2 - x - y - z \<and> 0 \<le> x + z - 1 \<and> 0 \<le> 1 - z \<and> 0 \<le> y + z - 1) \<and>
       (0 \<le> 1 - y \<and> 0 \<le> x \<and> 0 \<le> 1 - x - z \<and> 0 \<le> y + z - 1)"
      by (intro conjI; simp; linarith?)
  qed
qed

lemma tetra_meet_4_3:
  "convex_hull [(0, 0, 1), (1, 0, 1), (1, 1, 0), (0, 1, 1)] \<inter>
   convex_hull [(1, 0, 0), (1, 0, 1), (1, 1, 0), (0, 0, 1)]
     = convex_hull [(0, 0, 1), (1, 0, 1), (1, 1, 0)]"
proof (rule set_eqI)
  fix p :: vertex
  obtain x y z where p: "p = (x, y, z)" by (cases p) auto
  show "p \<in> convex_hull [(0, 0, 1), (1, 0, 1), (1, 1, 0), (0, 1, 1)] \<inter>
              convex_hull [(1, 0, 0), (1, 0, 1), (1, 1, 0), (0, 0, 1)]
          \<longleftrightarrow> p \<in> convex_hull [(0, 0, 1), (1, 0, 1), (1, 1, 0)]"
    unfolding p Int_iff tetra4_halfspaces tetra3_halfspaces hull3
  proof (intro iffI; elim exE conjE)
    assume "0 \<le> 2 - x - y - z" "0 \<le> x + z - 1" "0 \<le> 1 - z" "0 \<le> y + z - 1"
      "0 \<le> 1 - y - z" "0 \<le> x + z - 1" "0 \<le> y" "0 \<le> 1 - x"
    then show "\<exists>s t u. 0 \<le> s \<and> 0 \<le> t \<and> 0 \<le> u \<and>
        s + t + u = 1 \<and>
        x = s * 0 + t * 1 + u * 1 \<and> y = s * 0 + t * 0 + u * 1 \<and>
        z = s * 1 + t * 1 + u * 0"
      by - (rule exI[of _ "2 - x - y - z"], rule exI[of _ "x + z - 1"], rule exI[of _ "1 - z"],
            intro conjI; simp; linarith?)
  next
    fix s t u :: real
    assume "0 \<le> s" "0 \<le> t" "0 \<le> u" "s + t + u = 1"
      "x = s * 0 + t * 1 + u * 1" "y = s * 0 + t * 0 + u * 1"
      "z = s * 1 + t * 1 + u * 0"
    then show
      "(0 \<le> 2 - x - y - z \<and> 0 \<le> x + z - 1 \<and> 0 \<le> 1 - z \<and> 0 \<le> y + z - 1) \<and>
       (0 \<le> 1 - y - z \<and> 0 \<le> x + z - 1 \<and> 0 \<le> y \<and> 0 \<le> 1 - x)"
      by (intro conjI; simp; linarith?)
  qed
qed

lemma tetra_meet_4_5:
  "convex_hull [(0, 0, 1), (1, 0, 1), (1, 1, 0), (0, 1, 1)] \<inter>
   convex_hull [(1, 1, 0), (1, 0, 1), (1, 1, 1), (0, 1, 1)]
     = convex_hull [(1, 0, 1), (1, 1, 0), (0, 1, 1)]"
proof (rule set_eqI)
  fix p :: vertex
  obtain x y z where p: "p = (x, y, z)" by (cases p) auto
  show "p \<in> convex_hull [(0, 0, 1), (1, 0, 1), (1, 1, 0), (0, 1, 1)] \<inter>
              convex_hull [(1, 1, 0), (1, 0, 1), (1, 1, 1), (0, 1, 1)]
          \<longleftrightarrow> p \<in> convex_hull [(1, 0, 1), (1, 1, 0), (0, 1, 1)]"
    unfolding p Int_iff tetra4_halfspaces tetra5_halfspaces hull3
  proof (intro iffI; elim exE conjE)
    assume "0 \<le> 2 - x - y - z" "0 \<le> x + z - 1" "0 \<le> 1 - z" "0 \<le> y + z - 1"
      "0 \<le> 1 - z" "0 \<le> 1 - y" "0 \<le> x + y + z - 2" "0 \<le> 1 - x"
    then show "\<exists>s t u. 0 \<le> s \<and> 0 \<le> t \<and> 0 \<le> u \<and>
        s + t + u = 1 \<and>
        x = s * 1 + t * 1 + u * 0 \<and> y = s * 0 + t * 1 + u * 1 \<and>
        z = s * 1 + t * 0 + u * 1"
      by - (rule exI[of _ "x + z - 1"], rule exI[of _ "1 - z"], rule exI[of _ "y + z - 1"],
            intro conjI; simp; linarith?)
  next
    fix s t u :: real
    assume "0 \<le> s" "0 \<le> t" "0 \<le> u" "s + t + u = 1"
      "x = s * 1 + t * 1 + u * 0" "y = s * 0 + t * 1 + u * 1"
      "z = s * 1 + t * 0 + u * 1"
    then show
      "(0 \<le> 2 - x - y - z \<and> 0 \<le> x + z - 1 \<and> 0 \<le> 1 - z \<and> 0 \<le> y + z - 1) \<and>
       (0 \<le> 1 - z \<and> 0 \<le> 1 - y \<and> 0 \<le> x + y + z - 2 \<and> 0 \<le> 1 - x)"
      by (intro conjI; simp; linarith?)
  qed
qed

lemma tetra_meet_5_0:
  "convex_hull [(1, 1, 0), (1, 0, 1), (1, 1, 1), (0, 1, 1)] \<inter>
   convex_hull [(0, 0, 0), (1, 0, 0), (0, 1, 0), (0, 0, 1)]
     = convex_hull []"
proof (rule set_eqI)
  fix p :: vertex
  obtain x y z where p: "p = (x, y, z)" by (cases p) auto
  show "p \<in> convex_hull [(1, 1, 0), (1, 0, 1), (1, 1, 1), (0, 1, 1)] \<inter>
              convex_hull [(0, 0, 0), (1, 0, 0), (0, 1, 0), (0, 0, 1)]
          \<longleftrightarrow> p \<in> convex_hull []"
    unfolding p Int_iff tetra5_halfspaces tetra0_halfspaces
    using hull0[of "(x, y, z)"] by auto
qed

lemma tetra_meet_5_1:
  "convex_hull [(1, 1, 0), (1, 0, 1), (1, 1, 1), (0, 1, 1)] \<inter>
   convex_hull [(0, 1, 0), (1, 0, 0), (1, 1, 0), (0, 0, 1)]
     = convex_hull [(1, 1, 0)]"
proof (rule set_eqI)
  fix p :: vertex
  obtain x y z where p: "p = (x, y, z)" by (cases p) auto
  show "p \<in> convex_hull [(1, 1, 0), (1, 0, 1), (1, 1, 1), (0, 1, 1)] \<inter>
              convex_hull [(0, 1, 0), (1, 0, 0), (1, 1, 0), (0, 0, 1)]
          \<longleftrightarrow> p \<in> convex_hull [(1, 1, 0)]"
    unfolding p Int_iff tetra5_halfspaces tetra1_halfspaces hull1
    by (intro iffI; elim conjE; intro conjI; linarith)
qed

lemma tetra_meet_5_2:
  "convex_hull [(1, 1, 0), (1, 0, 1), (1, 1, 1), (0, 1, 1)] \<inter>
   convex_hull [(0, 0, 1), (1, 1, 0), (0, 1, 0), (0, 1, 1)]
     = convex_hull [(1, 1, 0), (0, 1, 1)]"
proof (rule set_eqI)
  fix p :: vertex
  obtain x y z where p: "p = (x, y, z)" by (cases p) auto
  show "p \<in> convex_hull [(1, 1, 0), (1, 0, 1), (1, 1, 1), (0, 1, 1)] \<inter>
              convex_hull [(0, 0, 1), (1, 1, 0), (0, 1, 0), (0, 1, 1)]
          \<longleftrightarrow> p \<in> convex_hull [(1, 1, 0), (0, 1, 1)]"
    unfolding p Int_iff tetra5_halfspaces tetra2_halfspaces hull2
  proof (intro iffI; elim exE conjE)
    assume "0 \<le> 1 - z" "0 \<le> 1 - y" "0 \<le> x + y + z - 2" "0 \<le> 1 - x"
      "0 \<le> 1 - y" "0 \<le> x" "0 \<le> 1 - x - z" "0 \<le> y + z - 1"
    then show "\<exists>s t. 0 \<le> s \<and> 0 \<le> t \<and>
        s + t = 1 \<and>
        x = s * 1 + t * 0 \<and> y = s * 1 + t * 1 \<and>
        z = s * 0 + t * 1"
      by - (rule exI[of _ "1 - z"], rule exI[of _ "1 - x"],
            intro conjI; simp; linarith?)
  next
    fix s t :: real
    assume "0 \<le> s" "0 \<le> t" "s + t = 1"
      "x = s * 1 + t * 0" "y = s * 1 + t * 1"
      "z = s * 0 + t * 1"
    then show
      "(0 \<le> 1 - z \<and> 0 \<le> 1 - y \<and> 0 \<le> x + y + z - 2 \<and> 0 \<le> 1 - x) \<and>
       (0 \<le> 1 - y \<and> 0 \<le> x \<and> 0 \<le> 1 - x - z \<and> 0 \<le> y + z - 1)"
      by (intro conjI; simp; linarith?)
  qed
qed

lemma tetra_meet_5_3:
  "convex_hull [(1, 1, 0), (1, 0, 1), (1, 1, 1), (0, 1, 1)] \<inter>
   convex_hull [(1, 0, 0), (1, 0, 1), (1, 1, 0), (0, 0, 1)]
     = convex_hull [(1, 1, 0), (1, 0, 1)]"
proof (rule set_eqI)
  fix p :: vertex
  obtain x y z where p: "p = (x, y, z)" by (cases p) auto
  show "p \<in> convex_hull [(1, 1, 0), (1, 0, 1), (1, 1, 1), (0, 1, 1)] \<inter>
              convex_hull [(1, 0, 0), (1, 0, 1), (1, 1, 0), (0, 0, 1)]
          \<longleftrightarrow> p \<in> convex_hull [(1, 1, 0), (1, 0, 1)]"
    unfolding p Int_iff tetra5_halfspaces tetra3_halfspaces hull2
  proof (intro iffI; elim exE conjE)
    assume "0 \<le> 1 - z" "0 \<le> 1 - y" "0 \<le> x + y + z - 2" "0 \<le> 1 - x"
      "0 \<le> 1 - y - z" "0 \<le> x + z - 1" "0 \<le> y" "0 \<le> 1 - x"
    then show "\<exists>s t. 0 \<le> s \<and> 0 \<le> t \<and>
        s + t = 1 \<and>
        x = s * 1 + t * 1 \<and> y = s * 1 + t * 0 \<and>
        z = s * 0 + t * 1"
      by - (rule exI[of _ "1 - z"], rule exI[of _ "1 - y"],
            intro conjI; simp; linarith?)
  next
    fix s t :: real
    assume "0 \<le> s" "0 \<le> t" "s + t = 1"
      "x = s * 1 + t * 1" "y = s * 1 + t * 0"
      "z = s * 0 + t * 1"
    then show
      "(0 \<le> 1 - z \<and> 0 \<le> 1 - y \<and> 0 \<le> x + y + z - 2 \<and> 0 \<le> 1 - x) \<and>
       (0 \<le> 1 - y - z \<and> 0 \<le> x + z - 1 \<and> 0 \<le> y \<and> 0 \<le> 1 - x)"
      by (intro conjI; simp; linarith?)
  qed
qed

lemma tetra_meet_5_4:
  "convex_hull [(1, 1, 0), (1, 0, 1), (1, 1, 1), (0, 1, 1)] \<inter>
   convex_hull [(0, 0, 1), (1, 0, 1), (1, 1, 0), (0, 1, 1)]
     = convex_hull [(1, 1, 0), (1, 0, 1), (0, 1, 1)]"
proof (rule set_eqI)
  fix p :: vertex
  obtain x y z where p: "p = (x, y, z)" by (cases p) auto
  show "p \<in> convex_hull [(1, 1, 0), (1, 0, 1), (1, 1, 1), (0, 1, 1)] \<inter>
              convex_hull [(0, 0, 1), (1, 0, 1), (1, 1, 0), (0, 1, 1)]
          \<longleftrightarrow> p \<in> convex_hull [(1, 1, 0), (1, 0, 1), (0, 1, 1)]"
    unfolding p Int_iff tetra5_halfspaces tetra4_halfspaces hull3
  proof (intro iffI; elim exE conjE)
    assume "0 \<le> 1 - z" "0 \<le> 1 - y" "0 \<le> x + y + z - 2" "0 \<le> 1 - x"
      "0 \<le> 2 - x - y - z" "0 \<le> x + z - 1" "0 \<le> 1 - z" "0 \<le> y + z - 1"
    then show "\<exists>s t u. 0 \<le> s \<and> 0 \<le> t \<and> 0 \<le> u \<and>
        s + t + u = 1 \<and>
        x = s * 1 + t * 1 + u * 0 \<and> y = s * 1 + t * 0 + u * 1 \<and>
        z = s * 0 + t * 1 + u * 1"
      by - (rule exI[of _ "1 - z"], rule exI[of _ "1 - y"], rule exI[of _ "1 - x"],
            intro conjI; simp; linarith?)
  next
    fix s t u :: real
    assume "0 \<le> s" "0 \<le> t" "0 \<le> u" "s + t + u = 1"
      "x = s * 1 + t * 1 + u * 0" "y = s * 1 + t * 0 + u * 1"
      "z = s * 0 + t * 1 + u * 1"
    then show
      "(0 \<le> 1 - z \<and> 0 \<le> 1 - y \<and> 0 \<le> x + y + z - 2 \<and> 0 \<le> 1 - x) \<and>
       (0 \<le> 2 - x - y - z \<and> 0 \<le> x + z - 1 \<and> 0 \<le> 1 - z \<and> 0 \<le> y + z - 1)"
      by (intro conjI; simp; linarith?)
  qed
qed

lemma tetra_interiors_0_1:
  "interior_points (convex_hull [(0, 0, 0), (1, 0, 0), (0, 1, 0), (0, 0, 1)]) \<inter>
   interior_points (convex_hull [(0, 1, 0), (1, 0, 0), (1, 1, 0), (0, 0, 1)]) = {}"
proof (rule separated_interiors
    [where a = "1" and b = "1" and c = "1" and d = "1"])
  fix x y z :: real
  assume "(x, y, z) \<in> convex_hull [(0, 0, 0), (1, 0, 0), (0, 1, 0), (0, 0, 1)]"
  then show "1 * x + 1 * y + 1 * z \<le> 1"
    unfolding tetra0_halfspaces by linarith
next
  fix x y z :: real
  assume "(x, y, z) \<in> convex_hull [(0, 1, 0), (1, 0, 0), (1, 1, 0), (0, 0, 1)]"
  then show "1 \<le> 1 * x + 1 * y + 1 * z"
    unfolding tetra1_halfspaces by linarith
next
  show "(1::real) \<noteq> 0 \<or> (1::real) \<noteq> 0 \<or> (1::real) \<noteq> 0"
    by simp
qed

lemma tetra_interiors_0_2:
  "interior_points (convex_hull [(0, 0, 0), (1, 0, 0), (0, 1, 0), (0, 0, 1)]) \<inter>
   interior_points (convex_hull [(0, 0, 1), (1, 1, 0), (0, 1, 0), (0, 1, 1)]) = {}"
proof (rule separated_interiors
    [where a = "1" and b = "1" and c = "1" and d = "1"])
  fix x y z :: real
  assume "(x, y, z) \<in> convex_hull [(0, 0, 0), (1, 0, 0), (0, 1, 0), (0, 0, 1)]"
  then show "1 * x + 1 * y + 1 * z \<le> 1"
    unfolding tetra0_halfspaces by linarith
next
  fix x y z :: real
  assume "(x, y, z) \<in> convex_hull [(0, 0, 1), (1, 1, 0), (0, 1, 0), (0, 1, 1)]"
  then show "1 \<le> 1 * x + 1 * y + 1 * z"
    unfolding tetra2_halfspaces by linarith
next
  show "(1::real) \<noteq> 0 \<or> (1::real) \<noteq> 0 \<or> (1::real) \<noteq> 0"
    by simp
qed

lemma tetra_interiors_0_3:
  "interior_points (convex_hull [(0, 0, 0), (1, 0, 0), (0, 1, 0), (0, 0, 1)]) \<inter>
   interior_points (convex_hull [(1, 0, 0), (1, 0, 1), (1, 1, 0), (0, 0, 1)]) = {}"
proof (rule separated_interiors
    [where a = "1" and b = "1" and c = "1" and d = "1"])
  fix x y z :: real
  assume "(x, y, z) \<in> convex_hull [(0, 0, 0), (1, 0, 0), (0, 1, 0), (0, 0, 1)]"
  then show "1 * x + 1 * y + 1 * z \<le> 1"
    unfolding tetra0_halfspaces by linarith
next
  fix x y z :: real
  assume "(x, y, z) \<in> convex_hull [(1, 0, 0), (1, 0, 1), (1, 1, 0), (0, 0, 1)]"
  then show "1 \<le> 1 * x + 1 * y + 1 * z"
    unfolding tetra3_halfspaces by linarith
next
  show "(1::real) \<noteq> 0 \<or> (1::real) \<noteq> 0 \<or> (1::real) \<noteq> 0"
    by simp
qed

lemma tetra_interiors_0_4:
  "interior_points (convex_hull [(0, 0, 0), (1, 0, 0), (0, 1, 0), (0, 0, 1)]) \<inter>
   interior_points (convex_hull [(0, 0, 1), (1, 0, 1), (1, 1, 0), (0, 1, 1)]) = {}"
proof (rule separated_interiors
    [where a = "1" and b = "1" and c = "1" and d = "1"])
  fix x y z :: real
  assume "(x, y, z) \<in> convex_hull [(0, 0, 0), (1, 0, 0), (0, 1, 0), (0, 0, 1)]"
  then show "1 * x + 1 * y + 1 * z \<le> 1"
    unfolding tetra0_halfspaces by linarith
next
  fix x y z :: real
  assume "(x, y, z) \<in> convex_hull [(0, 0, 1), (1, 0, 1), (1, 1, 0), (0, 1, 1)]"
  then show "1 \<le> 1 * x + 1 * y + 1 * z"
    unfolding tetra4_halfspaces by linarith
next
  show "(1::real) \<noteq> 0 \<or> (1::real) \<noteq> 0 \<or> (1::real) \<noteq> 0"
    by simp
qed

lemma tetra_interiors_0_5:
  "interior_points (convex_hull [(0, 0, 0), (1, 0, 0), (0, 1, 0), (0, 0, 1)]) \<inter>
   interior_points (convex_hull [(1, 1, 0), (1, 0, 1), (1, 1, 1), (0, 1, 1)]) = {}"
proof (rule separated_interiors
    [where a = "1" and b = "1" and c = "1" and d = "1"])
  fix x y z :: real
  assume "(x, y, z) \<in> convex_hull [(0, 0, 0), (1, 0, 0), (0, 1, 0), (0, 0, 1)]"
  then show "1 * x + 1 * y + 1 * z \<le> 1"
    unfolding tetra0_halfspaces by linarith
next
  fix x y z :: real
  assume "(x, y, z) \<in> convex_hull [(1, 1, 0), (1, 0, 1), (1, 1, 1), (0, 1, 1)]"
  then show "1 \<le> 1 * x + 1 * y + 1 * z"
    unfolding tetra5_halfspaces by linarith
next
  show "(1::real) \<noteq> 0 \<or> (1::real) \<noteq> 0 \<or> (1::real) \<noteq> 0"
    by simp
qed

lemma tetra_interiors_1_2:
  "interior_points (convex_hull [(0, 1, 0), (1, 0, 0), (1, 1, 0), (0, 0, 1)]) \<inter>
   interior_points (convex_hull [(0, 0, 1), (1, 1, 0), (0, 1, 0), (0, 1, 1)]) = {}"
proof (rule separated_interiors
    [where a = "0" and b = "1" and c = "1" and d = "1"])
  fix x y z :: real
  assume "(x, y, z) \<in> convex_hull [(0, 1, 0), (1, 0, 0), (1, 1, 0), (0, 0, 1)]"
  then show "0 * x + 1 * y + 1 * z \<le> 1"
    unfolding tetra1_halfspaces by linarith
next
  fix x y z :: real
  assume "(x, y, z) \<in> convex_hull [(0, 0, 1), (1, 1, 0), (0, 1, 0), (0, 1, 1)]"
  then show "1 \<le> 0 * x + 1 * y + 1 * z"
    unfolding tetra2_halfspaces by linarith
next
  show "(0::real) \<noteq> 0 \<or> (1::real) \<noteq> 0 \<or> (1::real) \<noteq> 0"
    by simp
qed

lemma tetra_interiors_1_3:
  "interior_points (convex_hull [(0, 1, 0), (1, 0, 0), (1, 1, 0), (0, 0, 1)]) \<inter>
   interior_points (convex_hull [(1, 0, 0), (1, 0, 1), (1, 1, 0), (0, 0, 1)]) = {}"
proof (rule separated_interiors
    [where a = "1" and b = "0" and c = "1" and d = "1"])
  fix x y z :: real
  assume "(x, y, z) \<in> convex_hull [(0, 1, 0), (1, 0, 0), (1, 1, 0), (0, 0, 1)]"
  then show "1 * x + 0 * y + 1 * z \<le> 1"
    unfolding tetra1_halfspaces by linarith
next
  fix x y z :: real
  assume "(x, y, z) \<in> convex_hull [(1, 0, 0), (1, 0, 1), (1, 1, 0), (0, 0, 1)]"
  then show "1 \<le> 1 * x + 0 * y + 1 * z"
    unfolding tetra3_halfspaces by linarith
next
  show "(1::real) \<noteq> 0 \<or> (0::real) \<noteq> 0 \<or> (1::real) \<noteq> 0"
    by simp
qed

lemma tetra_interiors_1_4:
  "interior_points (convex_hull [(0, 1, 0), (1, 0, 0), (1, 1, 0), (0, 0, 1)]) \<inter>
   interior_points (convex_hull [(0, 0, 1), (1, 0, 1), (1, 1, 0), (0, 1, 1)]) = {}"
proof (rule separated_interiors
    [where a = "1" and b = "0" and c = "1" and d = "1"])
  fix x y z :: real
  assume "(x, y, z) \<in> convex_hull [(0, 1, 0), (1, 0, 0), (1, 1, 0), (0, 0, 1)]"
  then show "1 * x + 0 * y + 1 * z \<le> 1"
    unfolding tetra1_halfspaces by linarith
next
  fix x y z :: real
  assume "(x, y, z) \<in> convex_hull [(0, 0, 1), (1, 0, 1), (1, 1, 0), (0, 1, 1)]"
  then show "1 \<le> 1 * x + 0 * y + 1 * z"
    unfolding tetra4_halfspaces by linarith
next
  show "(1::real) \<noteq> 0 \<or> (0::real) \<noteq> 0 \<or> (1::real) \<noteq> 0"
    by simp
qed

lemma tetra_interiors_1_5:
  "interior_points (convex_hull [(0, 1, 0), (1, 0, 0), (1, 1, 0), (0, 0, 1)]) \<inter>
   interior_points (convex_hull [(1, 1, 0), (1, 0, 1), (1, 1, 1), (0, 1, 1)]) = {}"
proof (rule separated_interiors
    [where a = "1" and b = "0" and c = "1" and d = "1"])
  fix x y z :: real
  assume "(x, y, z) \<in> convex_hull [(0, 1, 0), (1, 0, 0), (1, 1, 0), (0, 0, 1)]"
  then show "1 * x + 0 * y + 1 * z \<le> 1"
    unfolding tetra1_halfspaces by linarith
next
  fix x y z :: real
  assume "(x, y, z) \<in> convex_hull [(1, 1, 0), (1, 0, 1), (1, 1, 1), (0, 1, 1)]"
  then show "1 \<le> 1 * x + 0 * y + 1 * z"
    unfolding tetra5_halfspaces by linarith
next
  show "(1::real) \<noteq> 0 \<or> (0::real) \<noteq> 0 \<or> (1::real) \<noteq> 0"
    by simp
qed

lemma tetra_interiors_2_3:
  "interior_points (convex_hull [(0, 0, 1), (1, 1, 0), (0, 1, 0), (0, 1, 1)]) \<inter>
   interior_points (convex_hull [(1, 0, 0), (1, 0, 1), (1, 1, 0), (0, 0, 1)]) = {}"
proof (rule separated_interiors
    [where a = "1" and b = "0" and c = "1" and d = "1"])
  fix x y z :: real
  assume "(x, y, z) \<in> convex_hull [(0, 0, 1), (1, 1, 0), (0, 1, 0), (0, 1, 1)]"
  then show "1 * x + 0 * y + 1 * z \<le> 1"
    unfolding tetra2_halfspaces by linarith
next
  fix x y z :: real
  assume "(x, y, z) \<in> convex_hull [(1, 0, 0), (1, 0, 1), (1, 1, 0), (0, 0, 1)]"
  then show "1 \<le> 1 * x + 0 * y + 1 * z"
    unfolding tetra3_halfspaces by linarith
next
  show "(1::real) \<noteq> 0 \<or> (0::real) \<noteq> 0 \<or> (1::real) \<noteq> 0"
    by simp
qed

lemma tetra_interiors_2_4:
  "interior_points (convex_hull [(0, 0, 1), (1, 1, 0), (0, 1, 0), (0, 1, 1)]) \<inter>
   interior_points (convex_hull [(0, 0, 1), (1, 0, 1), (1, 1, 0), (0, 1, 1)]) = {}"
proof (rule separated_interiors
    [where a = "1" and b = "0" and c = "1" and d = "1"])
  fix x y z :: real
  assume "(x, y, z) \<in> convex_hull [(0, 0, 1), (1, 1, 0), (0, 1, 0), (0, 1, 1)]"
  then show "1 * x + 0 * y + 1 * z \<le> 1"
    unfolding tetra2_halfspaces by linarith
next
  fix x y z :: real
  assume "(x, y, z) \<in> convex_hull [(0, 0, 1), (1, 0, 1), (1, 1, 0), (0, 1, 1)]"
  then show "1 \<le> 1 * x + 0 * y + 1 * z"
    unfolding tetra4_halfspaces by linarith
next
  show "(1::real) \<noteq> 0 \<or> (0::real) \<noteq> 0 \<or> (1::real) \<noteq> 0"
    by simp
qed

lemma tetra_interiors_2_5:
  "interior_points (convex_hull [(0, 0, 1), (1, 1, 0), (0, 1, 0), (0, 1, 1)]) \<inter>
   interior_points (convex_hull [(1, 1, 0), (1, 0, 1), (1, 1, 1), (0, 1, 1)]) = {}"
proof (rule separated_interiors
    [where a = "1" and b = "0" and c = "1" and d = "1"])
  fix x y z :: real
  assume "(x, y, z) \<in> convex_hull [(0, 0, 1), (1, 1, 0), (0, 1, 0), (0, 1, 1)]"
  then show "1 * x + 0 * y + 1 * z \<le> 1"
    unfolding tetra2_halfspaces by linarith
next
  fix x y z :: real
  assume "(x, y, z) \<in> convex_hull [(1, 1, 0), (1, 0, 1), (1, 1, 1), (0, 1, 1)]"
  then show "1 \<le> 1 * x + 0 * y + 1 * z"
    unfolding tetra5_halfspaces by linarith
next
  show "(1::real) \<noteq> 0 \<or> (0::real) \<noteq> 0 \<or> (1::real) \<noteq> 0"
    by simp
qed

lemma tetra_interiors_3_4:
  "interior_points (convex_hull [(1, 0, 0), (1, 0, 1), (1, 1, 0), (0, 0, 1)]) \<inter>
   interior_points (convex_hull [(0, 0, 1), (1, 0, 1), (1, 1, 0), (0, 1, 1)]) = {}"
proof (rule separated_interiors
    [where a = "0" and b = "1" and c = "1" and d = "1"])
  fix x y z :: real
  assume "(x, y, z) \<in> convex_hull [(1, 0, 0), (1, 0, 1), (1, 1, 0), (0, 0, 1)]"
  then show "0 * x + 1 * y + 1 * z \<le> 1"
    unfolding tetra3_halfspaces by linarith
next
  fix x y z :: real
  assume "(x, y, z) \<in> convex_hull [(0, 0, 1), (1, 0, 1), (1, 1, 0), (0, 1, 1)]"
  then show "1 \<le> 0 * x + 1 * y + 1 * z"
    unfolding tetra4_halfspaces by linarith
next
  show "(0::real) \<noteq> 0 \<or> (1::real) \<noteq> 0 \<or> (1::real) \<noteq> 0"
    by simp
qed

lemma tetra_interiors_3_5:
  "interior_points (convex_hull [(1, 0, 0), (1, 0, 1), (1, 1, 0), (0, 0, 1)]) \<inter>
   interior_points (convex_hull [(1, 1, 0), (1, 0, 1), (1, 1, 1), (0, 1, 1)]) = {}"
proof (rule separated_interiors
    [where a = "0" and b = "1" and c = "1" and d = "1"])
  fix x y z :: real
  assume "(x, y, z) \<in> convex_hull [(1, 0, 0), (1, 0, 1), (1, 1, 0), (0, 0, 1)]"
  then show "0 * x + 1 * y + 1 * z \<le> 1"
    unfolding tetra3_halfspaces by linarith
next
  fix x y z :: real
  assume "(x, y, z) \<in> convex_hull [(1, 1, 0), (1, 0, 1), (1, 1, 1), (0, 1, 1)]"
  then show "1 \<le> 0 * x + 1 * y + 1 * z"
    unfolding tetra5_halfspaces by linarith
next
  show "(0::real) \<noteq> 0 \<or> (1::real) \<noteq> 0 \<or> (1::real) \<noteq> 0"
    by simp
qed

lemma tetra_interiors_4_5:
  "interior_points (convex_hull [(0, 0, 1), (1, 0, 1), (1, 1, 0), (0, 1, 1)]) \<inter>
   interior_points (convex_hull [(1, 1, 0), (1, 0, 1), (1, 1, 1), (0, 1, 1)]) = {}"
proof (rule separated_interiors
    [where a = "1" and b = "1" and c = "1" and d = "2"])
  fix x y z :: real
  assume "(x, y, z) \<in> convex_hull [(0, 0, 1), (1, 0, 1), (1, 1, 0), (0, 1, 1)]"
  then show "1 * x + 1 * y + 1 * z \<le> 2"
    unfolding tetra4_halfspaces by linarith
next
  fix x y z :: real
  assume "(x, y, z) \<in> convex_hull [(1, 1, 0), (1, 0, 1), (1, 1, 1), (0, 1, 1)]"
  then show "2 \<le> 1 * x + 1 * y + 1 * z"
    unfolding tetra5_halfspaces by linarith
next
  show "(1::real) \<noteq> 0 \<or> (1::real) \<noteq> 0 \<or> (1::real) \<noteq> 0"
    by simp
qed

lemma tetra0_inside:
  "(1 / 4, 1 / 4, 1 / 4) \<in>
     interior_points (convex_hull [(0, 0, 0), (1, 0, 0), (0, 1, 0), (0, 0, 1)])"
  unfolding interior_points_def
proof (intro CollectI exI[of _ "1 / 12"] conjI allI impI)
  show "0 < (1 / 12 :: real)" by simp
next
  fix q :: vertex
  assume n: "near (1 / 12) (1 / 4, 1 / 4, 1 / 4) q"
  obtain x y z where q: "q = (x, y, z)" by (cases q) auto
  from n have "\<bar>x - 1 / 4\<bar> < 1 / 12" "\<bar>y - 1 / 4\<bar> < 1 / 12" "\<bar>z - 1 / 4\<bar> < 1 / 12"
    unfolding q near_def by simp_all
  then show "q \<in> convex_hull [(0, 0, 0), (1, 0, 0), (0, 1, 0), (0, 0, 1)]"
    unfolding q tetra0_halfspaces by (intro conjI; linarith)
qed

lemma tetra1_inside:
  "(1 / 2, 1 / 2, 1 / 4) \<in>
     interior_points (convex_hull [(0, 1, 0), (1, 0, 0), (1, 1, 0), (0, 0, 1)])"
  unfolding interior_points_def
proof (intro CollectI exI[of _ "1 / 12"] conjI allI impI)
  show "0 < (1 / 12 :: real)" by simp
next
  fix q :: vertex
  assume n: "near (1 / 12) (1 / 2, 1 / 2, 1 / 4) q"
  obtain x y z where q: "q = (x, y, z)" by (cases q) auto
  from n have "\<bar>x - 1 / 2\<bar> < 1 / 12" "\<bar>y - 1 / 2\<bar> < 1 / 12" "\<bar>z - 1 / 4\<bar> < 1 / 12"
    unfolding q near_def by simp_all
  then show "q \<in> convex_hull [(0, 1, 0), (1, 0, 0), (1, 1, 0), (0, 0, 1)]"
    unfolding q tetra1_halfspaces by (intro conjI; linarith)
qed

lemma tetra2_inside:
  "(1 / 4, 3 / 4, 1 / 2) \<in>
     interior_points (convex_hull [(0, 0, 1), (1, 1, 0), (0, 1, 0), (0, 1, 1)])"
  unfolding interior_points_def
proof (intro CollectI exI[of _ "1 / 12"] conjI allI impI)
  show "0 < (1 / 12 :: real)" by simp
next
  fix q :: vertex
  assume n: "near (1 / 12) (1 / 4, 3 / 4, 1 / 2) q"
  obtain x y z where q: "q = (x, y, z)" by (cases q) auto
  from n have "\<bar>x - 1 / 4\<bar> < 1 / 12" "\<bar>y - 3 / 4\<bar> < 1 / 12" "\<bar>z - 1 / 2\<bar> < 1 / 12"
    unfolding q near_def by simp_all
  then show "q \<in> convex_hull [(0, 0, 1), (1, 1, 0), (0, 1, 0), (0, 1, 1)]"
    unfolding q tetra2_halfspaces by (intro conjI; linarith)
qed

lemma tetra3_inside:
  "(3 / 4, 1 / 4, 1 / 2) \<in>
     interior_points (convex_hull [(1, 0, 0), (1, 0, 1), (1, 1, 0), (0, 0, 1)])"
  unfolding interior_points_def
proof (intro CollectI exI[of _ "1 / 12"] conjI allI impI)
  show "0 < (1 / 12 :: real)" by simp
next
  fix q :: vertex
  assume n: "near (1 / 12) (3 / 4, 1 / 4, 1 / 2) q"
  obtain x y z where q: "q = (x, y, z)" by (cases q) auto
  from n have "\<bar>x - 3 / 4\<bar> < 1 / 12" "\<bar>y - 1 / 4\<bar> < 1 / 12" "\<bar>z - 1 / 2\<bar> < 1 / 12"
    unfolding q near_def by simp_all
  then show "q \<in> convex_hull [(1, 0, 0), (1, 0, 1), (1, 1, 0), (0, 0, 1)]"
    unfolding q tetra3_halfspaces by (intro conjI; linarith)
qed

lemma tetra4_inside:
  "(1 / 2, 1 / 2, 3 / 4) \<in>
     interior_points (convex_hull [(0, 0, 1), (1, 0, 1), (1, 1, 0), (0, 1, 1)])"
  unfolding interior_points_def
proof (intro CollectI exI[of _ "1 / 12"] conjI allI impI)
  show "0 < (1 / 12 :: real)" by simp
next
  fix q :: vertex
  assume n: "near (1 / 12) (1 / 2, 1 / 2, 3 / 4) q"
  obtain x y z where q: "q = (x, y, z)" by (cases q) auto
  from n have "\<bar>x - 1 / 2\<bar> < 1 / 12" "\<bar>y - 1 / 2\<bar> < 1 / 12" "\<bar>z - 3 / 4\<bar> < 1 / 12"
    unfolding q near_def by simp_all
  then show "q \<in> convex_hull [(0, 0, 1), (1, 0, 1), (1, 1, 0), (0, 1, 1)]"
    unfolding q tetra4_halfspaces by (intro conjI; linarith)
qed

lemma tetra5_inside:
  "(3 / 4, 3 / 4, 3 / 4) \<in>
     interior_points (convex_hull [(1, 1, 0), (1, 0, 1), (1, 1, 1), (0, 1, 1)])"
  unfolding interior_points_def
proof (intro CollectI exI[of _ "1 / 12"] conjI allI impI)
  show "0 < (1 / 12 :: real)" by simp
next
  fix q :: vertex
  assume n: "near (1 / 12) (3 / 4, 3 / 4, 3 / 4) q"
  obtain x y z where q: "q = (x, y, z)" by (cases q) auto
  from n have "\<bar>x - 3 / 4\<bar> < 1 / 12" "\<bar>y - 3 / 4\<bar> < 1 / 12" "\<bar>z - 3 / 4\<bar> < 1 / 12"
    unfolding q near_def by simp_all
  then show "q \<in> convex_hull [(1, 1, 0), (1, 0, 1), (1, 1, 1), (0, 1, 1)]"
    unfolding q tetra5_halfspaces by (intro conjI; linarith)
qed

lemma tetrahedron_box:
  assumes "box_corners corner"
  shows "tetrahedron corner 0 = convex_hull [(0, 0, 0), (1, 0, 0), (0, 1, 0), (0, 0, 1)]"
    and "tetrahedron corner 1 = convex_hull [(0, 1, 0), (1, 0, 0), (1, 1, 0), (0, 0, 1)]"
    and "tetrahedron corner 2 = convex_hull [(0, 0, 1), (1, 1, 0), (0, 1, 0), (0, 1, 1)]"
    and "tetrahedron corner 3 = convex_hull [(1, 0, 0), (1, 0, 1), (1, 1, 0), (0, 0, 1)]"
    and "tetrahedron corner 4 = convex_hull [(0, 0, 1), (1, 0, 1), (1, 1, 0), (0, 1, 1)]"
    and "tetrahedron corner 5 = convex_hull [(1, 1, 0), (1, 0, 1), (1, 1, 1), (0, 1, 1)]"
    and "tetrahedron corner (Suc 0) = convex_hull [(0, 1, 0), (1, 0, 0), (1, 1, 0), (0, 0, 1)]"
  using assms
  by (simp_all add: box_corners_def tetrahedron_def tetra_corners_def TetraederDefinitionTable_def)

lemma tetrahedra_cover_cube:
  "convex_hull [(0, 0, 0), (1, 0, 0), (0, 1, 0), (0, 0, 1)] \<union>
   convex_hull [(0, 1, 0), (1, 0, 0), (1, 1, 0), (0, 0, 1)] \<union>
   convex_hull [(0, 0, 1), (1, 1, 0), (0, 1, 0), (0, 1, 1)] \<union>
   convex_hull [(1, 0, 0), (1, 0, 1), (1, 1, 0), (0, 0, 1)] \<union>
   convex_hull [(0, 0, 1), (1, 0, 1), (1, 1, 0), (0, 1, 1)] \<union>
   convex_hull [(1, 1, 0), (1, 0, 1), (1, 1, 1), (0, 1, 1)] = unit_cube"
proof (rule set_eqI)
  fix p :: vertex
  obtain x y z where p: "p = (x, y, z)" by (cases p) auto
  show "p \<in> convex_hull [(0, 0, 0), (1, 0, 0), (0, 1, 0), (0, 0, 1)] \<union>
   convex_hull [(0, 1, 0), (1, 0, 0), (1, 1, 0), (0, 0, 1)] \<union>
   convex_hull [(0, 0, 1), (1, 1, 0), (0, 1, 0), (0, 1, 1)] \<union>
   convex_hull [(1, 0, 0), (1, 0, 1), (1, 1, 0), (0, 0, 1)] \<union>
   convex_hull [(0, 0, 1), (1, 0, 1), (1, 1, 0), (0, 1, 1)] \<union>
   convex_hull [(1, 1, 0), (1, 0, 1), (1, 1, 1), (0, 1, 1)] \<longleftrightarrow> p \<in> unit_cube"
    unfolding p Un_iff tetra0_halfspaces tetra1_halfspaces tetra2_halfspaces
      tetra3_halfspaces tetra4_halfspaces tetra5_halfspaces unit_cube_def
    by (simp; linarith)
qed

lemmas tetra_interiors =
  tetra_interiors_0_1
  tetra_interiors_0_2
  tetra_interiors_0_3
  tetra_interiors_0_4
  tetra_interiors_0_5
  tetra_interiors_1_2
  tetra_interiors_1_3
  tetra_interiors_1_4
  tetra_interiors_1_5
  tetra_interiors_2_3
  tetra_interiors_2_4
  tetra_interiors_2_5
  tetra_interiors_3_4
  tetra_interiors_3_5
  tetra_interiors_4_5

lemmas tetra_meet =
  tetra_meet_0_1
  tetra_meet_0_2
  tetra_meet_0_3
  tetra_meet_0_4
  tetra_meet_0_5
  tetra_meet_1_0
  tetra_meet_1_2
  tetra_meet_1_3
  tetra_meet_1_4
  tetra_meet_1_5
  tetra_meet_2_0
  tetra_meet_2_1
  tetra_meet_2_3
  tetra_meet_2_4
  tetra_meet_2_5
  tetra_meet_3_0
  tetra_meet_3_1
  tetra_meet_3_2
  tetra_meet_3_4
  tetra_meet_3_5
  tetra_meet_4_0
  tetra_meet_4_1
  tetra_meet_4_2
  tetra_meet_4_3
  tetra_meet_4_5
  tetra_meet_5_0
  tetra_meet_5_1
  tetra_meet_5_2
  tetra_meet_5_3
  tetra_meet_5_4

text \<open>
  Claim C5. With the corners of the unit cube placed as \<open>box_corners\<close> says, the six
  tetrahedra of \<open>TetraederDefinitionTable\<close> partition the cube: their union is the
  whole cube, the interiors of two different tetrahedra have no point in common, and two
  tetrahedra meet exactly in the convex hull of the corners they share, which is a face,
  an edge or a corner of both, or nothing. None of the tetrahedra is flat: each has
  interior points.
\<close>

theorem tetrahedra_partition_cube:
  assumes "box_corners corner" and "s < 6" and "t < 6"
  shows "(\<Union>i<6. tetrahedron corner i) = unit_cube \<and>
         (s \<noteq> t \<longrightarrow>
            interior_points (tetrahedron corner s) \<inter> interior_points (tetrahedron corner t) = {}) \<and>
         tetrahedron corner s \<inter> tetrahedron corner t = convex_hull (shared_corners corner s t) \<and>
         interior_points (tetrahedron corner s) \<noteq> {}"
proof -
  note tb = tetrahedron_box[OF assms(1)]
  note cs = assms(1)[unfolded box_corners_def]
  have c1: "corner (Suc 0) = (1, 0, 0)" using cs by simp
  have cover: "(\<Union>i<6. tetrahedron corner i) = unit_cube"
    unfolding lessThan_6 using tetrahedra_cover_cube by (simp add: tb Un_assoc)
  have apart: "interior_points (tetrahedron corner s) \<inter> interior_points (tetrahedron corner t) = {}"
    if "s \<noteq> t"
    using nat_less_6_cases[OF assms(2)] nat_less_6_cases[OF assms(3)] that
    by (elim disjE; simp add: tb tetra_interiors tetra_interiors[THEN trans[OF Int_commute]])
  have meet: "tetrahedron corner s \<inter> tetrahedron corner t = convex_hull (shared_corners corner s t)"
    using nat_less_6_cases[OF assms(2)] nat_less_6_cases[OF assms(3)]
    by (elim disjE;
        simp add: tb cs c1 shared_corners_def TetraederDefinitionTable_def tetra_meet)
  have solid: "interior_points (tetrahedron corner s) \<noteq> {}"
    using nat_less_6_cases[OF assms(2)] tetra0_inside tetra1_inside tetra2_inside
      tetra3_inside tetra4_inside tetra5_inside
    by (elim disjE; simp add: tb; blast)
  from cover apart meet solid show ?thesis by blast
qed

theorem tetrahedra_partition_cube_witness:
  "box_corners (\<lambda>i. [(0, 0, 0), (1, 0, 0), (1, 1, 0), (0, 1, 0), (0, 0, 1), (1, 0, 1),
      (1, 1, 1), (0, 1, 1)] ! i) \<and> (0::nat) < 6 \<and> (1::nat) < 6 \<and>
   (\<Union>i<6. tetrahedron (\<lambda>i. [(0, 0, 0), (1, 0, 0), (1, 1, 0), (0, 1, 0), (0, 0, 1), (1, 0, 1),
      (1, 1, 1), (0, 1, 1)] ! i) i) = unit_cube \<and>
   interior_points (tetrahedron (\<lambda>i. [(0, 0, 0), (1, 0, 0), (1, 1, 0), (0, 1, 0), (0, 0, 1),
      (1, 0, 1), (1, 1, 1), (0, 1, 1)] ! i) 0) \<inter>
   interior_points (tetrahedron (\<lambda>i. [(0, 0, 0), (1, 0, 0), (1, 1, 0), (0, 1, 0), (0, 0, 1),
      (1, 0, 1), (1, 1, 1), (0, 1, 1)] ! i) 1) = {} \<and>
   tetrahedron (\<lambda>i. [(0, 0, 0), (1, 0, 0), (1, 1, 0), (0, 1, 0), (0, 0, 1), (1, 0, 1),
      (1, 1, 1), (0, 1, 1)] ! i) 0 \<inter>
   tetrahedron (\<lambda>i. [(0, 0, 0), (1, 0, 0), (1, 1, 0), (0, 1, 0), (0, 0, 1), (1, 0, 1),
      (1, 1, 1), (0, 1, 1)] ! i) 1 = convex_hull [(1, 0, 0), (0, 1, 0), (0, 0, 1)] \<and>
   interior_points (tetrahedron (\<lambda>i. [(0, 0, 0), (1, 0, 0), (1, 1, 0), (0, 1, 0), (0, 0, 1),
      (1, 0, 1), (1, 1, 1), (0, 1, 1)] ! i) 0) \<noteq> {}"
proof -
  have b: "box_corners (\<lambda>i. [(0, 0, 0), (1, 0, 0), (1, 1, 0), (0, 1, 0), (0, 0, 1), (1, 0, 1),
      (1, 1, 1), (0, 1, 1)] ! i)"
    by (simp add: box_corners_def)
  have sh: "shared_corners (\<lambda>i. [(0, 0, 0), (1, 0, 0), (1, 1, 0), (0, 1, 0), (0, 0, 1), (1, 0, 1),
      (1, 1, 1), (0, 1, 1)] ! i) 0 1 = [(1, 0, 0), (0, 1, 0), (0, 0, 1)]"
    by (simp add: shared_corners_def TetraederDefinitionTable_def)
  show ?thesis
    using tetrahedra_partition_cube[OF b, of 0 1] b sh by simp
qed

end
